theory Spec2Isabelle
  imports Complex_Main "HOL-Library.Word"
begin

section \<open>Python values, exceptions and the Streamlit session state\<close>

text \<open>
  \<^verbatim>\<open>App.py\<close> is a Streamlit script: it runs top to bottom on every user
  interaction, and everything it remembers between two runs lives in the dictionary
  \<^verbatim>\<open>st.session_state\<close>. The script stores under the keys \<^verbatim>\<open>recording\<close>
  (a bool), \<^verbatim>\<open>recorded_video\<close> (None or the encoded bytes), \<^verbatim>\<open>status\<close>
  (a str), \<^verbatim>\<open>start_time\<close> (None or a float) and \<^verbatim>\<open>frames\<close> (a list of
  frames). The dictionary is a map from key to Python value; a key that is not set is
  \<open>None\<close> of the map, which is different from the Python value \<open>PNone\<close>. Frames are
  opaque values of a type \<open>'f\<close>. Strings are byte lists: a character beyond ASCII is written
  as its UTF-8 bytes.
\<close>

type_synonym bytes = "8 word list"

datatype 'f pyval =
    PNone
  | PBool bool
  | PFloat real
  | PStr string
  | PBytes bytes
  | PList "'f list"

text \<open>Python's truth value of an object, as \<^verbatim>\<open>if x:\<close> and \<^verbatim>\<open>not x\<close> test it.\<close>

fun truthy :: "'f pyval \<Rightarrow> bool" where
  "truthy PNone = False"
| "truthy (PBool b) = b"
| "truthy (PFloat x) = (x \<noteq> 0)"
| "truthy (PStr s) = (s \<noteq> [])"
| "truthy (PBytes b) = (b \<noteq> [])"
| "truthy (PList xs) = (xs \<noteq> [])"

type_synonym 'f session_state = "string \<rightharpoonup> 'f pyval"

text \<open>
  The exceptions of the model are subclasses of Python's \<^verbatim>\<open>Exception\<close>: the two
  botocore classes the script names, the interpreter's own errors, and
  \<open>OtherException\<close> for any other \<^verbatim>\<open>Exception\<close> a library raises, with its message.
\<close>

datatype exn =
    KeyError string
  | FileNotFoundError string
  | NameError string
  | AttributeError string
  | TypeError string
  | NoCredentialsError
  | ClientError string
  | OtherException string

text \<open>\<^verbatim>\<open>str(e)\<close>, as the f-strings of the error messages use it.\<close>

fun exn_str :: "exn \<Rightarrow> string" where
  "exn_str (KeyError m) = m"
| "exn_str (FileNotFoundError m) = m"
| "exn_str (NameError m) = m"
| "exn_str (AttributeError m) = m"
| "exn_str (TypeError m) = m"
| "exn_str NoCredentialsError = ''Unable to locate credentials''"
| "exn_str (ClientError m) = m"
| "exn_str (OtherException m) = m"

text \<open>
  How a script run ends: it reaches the last line, \<^verbatim>\<open>st.rerun()\<close> schedules a new
  run, \<^verbatim>\<open>st.stop()\<close> halts it, or an exception leaves the script.
\<close>

datatype outcome = Finished | Rerun | Stopped | Raised exn

text \<open>What the user clicked to trigger the run (a plain rerun has no click).\<close>

datatype click = No_click | Click_start | Click_stop | Click_reset

text \<open>
  The calls of a run that reach outside the script, in order: the user interface
  (\<open>Ui\<close> for the widgets that only draw), the PyAV encoder and the S3 client.
\<close>

datatype widget =
    Title | Markdown | Webrtc_streamer | Metric | Button_start | Button_stop
  | Button_reset | Info

datatype 'f event =
    Ui widget
  | St_error string
  | St_progress nat
  | St_success string
  | St_balloons
  | Ev_av_open
  | Ev_add_stream
  | Ev_reformat 'f
  | Ev_encode 'f
  | Ev_mux
  | Ev_close
  | Ev_output_bytes
  | Ev_s3_client
  | Ev_put_object string string bytes string



section \<open>The collaborators\<close>

text \<open>
  PyAV, boto3, the clock, the UUID generator and the WebRTC component are not code of
  this repository: each is a parameter. A call that can raise returns \<open>Inl\<close> the
  exception. \<open>'c\<close> is the state of the output container with its encoder stream,
  \<open>'p\<close> a packet.
\<close>

record ('f, 'c, 'p) av_lib =
  av_open :: "exn + 'c"
  av_add_stream :: "'c \<Rightarrow> exn + 'c"
  av_reformat :: "'f \<Rightarrow> exn + 'f"
  av_encode :: "'c \<Rightarrow> 'f \<Rightarrow> exn + 'c \<times> 'p list"
  av_mux :: "'c \<Rightarrow> 'p list \<Rightarrow> exn + 'c"
  av_close :: "'c \<Rightarrow> exn + 'c"
  av_output_bytes :: "'c \<Rightarrow> exn + bytes"

text \<open>The broken-down local time \<^verbatim>\<open>time.strftime\<close> formats.\<close>

record tm =
  tm_year :: nat
  tm_mon :: nat
  tm_mday :: nat
  tm_hour :: nat
  tm_min :: nat
  tm_sec :: nat

text \<open>
  \<open>secrets\<close> is \<^verbatim>\<open>st.secrets\<close> (\<open>None\<close> when the app has no secrets source at
  all, neither a \<^verbatim>\<open>secrets.toml\<close> nor secrets in the Cloud settings, else the
  mapping of the options that are set), \<open>playing\<close> is \<^verbatim>\<open>webrtc_ctx.state.playing\<close>,
  \<open>time_time\<close> is \<^verbatim>\<open>time.time()\<close>, \<open>s3_client\<close> is the exception of
  \<^verbatim>\<open>boto3.client\<close> if it raises, \<open>put_object\<close> (bucket, key, body, content type)
  the exception of \<^verbatim>\<open>s3.put_object\<close> if it raises, and \<open>format_mb n\<close> the text of
  \<^verbatim>\<open>f"{n / (1024*1024):.1f}"\<close> (floating-point formatting, left open).
\<close>

record ('f, 'c, 'p) env =
  secrets :: "(string \<rightharpoonup> string) option"
  playing :: bool
  time_time :: real
  localtime :: tm
  uuid4 :: "128 word"
  av :: "('f, 'c, 'p) av_lib"
  s3_client :: "exn option"
  put_object :: "string \<Rightarrow> string \<Rightarrow> bytes \<Rightarrow> string \<Rightarrow> exn option"
  format_mb :: "nat \<Rightarrow> string"

section \<open>Configuration (lines 10 to 17)\<close>

record config =
  aws_access_key_id :: string
  aws_secret_access_key :: string
  aws_region :: string
  s3_bucket :: string

text \<open>
  \<^verbatim>\<open>st.secrets[k]\<close> raises KeyError on a key that the secrets do not have;
  \<^verbatim>\<open>st.secrets.get("AWS_REGION", "us-east-1")\<close> does not. With no secrets source
  at all, the first read, on line 11, raises StreamlitSecretNotFoundError, which is a
  FileNotFoundError and not a KeyError (its message is shortened here).
\<close>

definition no_secrets_found :: exn where
  "no_secrets_found = FileNotFoundError ''No secrets found.''"

definition load_secrets :: "(string \<rightharpoonup> string) option \<Rightarrow> exn + config" where
  "load_secrets src =
     (case src of
        None \<Rightarrow> Inl no_secrets_found
      | Some sec \<Rightarrow>
     (case sec ''AWS_ACCESS_KEY_ID'' of
        None \<Rightarrow> Inl (KeyError ''AWS_ACCESS_KEY_ID'')
      | Some key_id \<Rightarrow>
     (case sec ''AWS_SECRET_ACCESS_KEY'' of
        None \<Rightarrow> Inl (KeyError ''AWS_SECRET_ACCESS_KEY'')
      | Some secret_key \<Rightarrow>
     (let region = (case sec ''AWS_REGION'' of None \<Rightarrow> ''us-east-1'' | Some r \<Rightarrow> r) in
      case sec ''S3_BUCKET'' of
        None \<Rightarrow> Inl (KeyError ''S3_BUCKET'')
      | Some bucket \<Rightarrow>
          Inr \<lparr>aws_access_key_id = key_id, aws_secret_access_key = secret_key,
               aws_region = region, s3_bucket = bucket\<rparr>))))"

definition cross_mark :: string where
  "cross_mark = [CHR 0xE2, CHR 0x9D, CHR 0x8C]"

definition check_mark :: string where
  "check_mark = [CHR 0xE2, CHR 0x9C, CHR 0x85]"

definition missing_secrets_msg :: string where
  "missing_secrets_msg =
     cross_mark @ '' **Missing AWS secrets**. Add to Streamlit Cloud settings.''"

section \<open>Session state initialisation (lines 23 to 30)\<close>

definition set_default :: "string \<Rightarrow> 'f pyval \<Rightarrow> 'f session_state \<Rightarrow> 'f session_state" where
  "set_default k v s = (if k \<in> dom s then s else s(k \<mapsto> v))"

definition init_session_state :: "'f session_state \<Rightarrow> 'f session_state" where
  "init_session_state s =
     set_default ''start_time'' PNone
       (set_default ''status'' (PStr ''Ready'')
         (set_default ''recorded_video'' PNone
           (set_default ''recording'' (PBool False) s)))"

section \<open>The frame callback (lines 43 to 49)\<close>

text \<open>
  Reading an attribute of the session state that is not set raises AttributeError.
  \<^verbatim>\<open>frames.append(frame)\<close> changes the list the session state holds. The script
  stores nothing but lists under \<^verbatim>\<open>frames\<close>; any other value has no \<^verbatim>\<open>append\<close>.
\<close>

definition video_frame_callback ::
  "'f session_state \<Rightarrow> 'f \<Rightarrow> (exn + 'f) \<times> 'f session_state" where
  "video_frame_callback s frame =
     (case s ''recording'' of
        None \<Rightarrow> (Inl (AttributeError ''recording''), s)
      | Some r \<Rightarrow>
          if truthy r then
            (let s1 = (if ''frames'' \<notin> dom s then s(''frames'' \<mapsto> PList []) else s) in
             case s1 ''frames'' of
               Some (PList fs) \<Rightarrow> (Inr frame, s1(''frames'' \<mapsto> PList (fs @ [frame])))
             | _ \<Rightarrow> (Inl (AttributeError ''append''), s1))
          else (Inr frame, s))"

section \<open>The reset handler (lines 145 to 149)\<close>

definition del_if_present :: "'f session_state \<Rightarrow> string \<Rightarrow> 'f session_state" where
  "del_if_present s k = (if k \<in> dom s then s(k := None) else s)"

definition reset_handler :: "'f session_state \<Rightarrow> 'f session_state" where
  "reset_handler s =
     foldl del_if_present s
       [''recording'', ''recorded_video'', ''status'', ''start_time'', ''frames'']"

section \<open>The object key (lines 54 and 55)\<close>

text \<open>
  \<^verbatim>\<open>time.strftime("%Y%m%d-%H%M%S")\<close> formats the local time: \<^verbatim>\<open>%Y\<close> is the
  year in decimal, the other fields are two decimal digits, zero-padded.
\<close>

definition digit_char :: "nat \<Rightarrow> char" where
  "digit_char n = ''0123456789'' ! (n mod 10)"

function decimal :: "nat \<Rightarrow> string" where
  "decimal n = (if n < 10 then [digit_char n] else decimal (n div 10) @ [digit_char n])"
  by pat_completeness auto
termination
  by (relation "measure id") auto

declare decimal.simps [simp del]

definition pad2 :: "nat \<Rightarrow> string" where
  "pad2 n = [digit_char (n div 10), digit_char n]"

definition strftime :: "tm \<Rightarrow> string" where
  "strftime t =
     decimal (tm_year t) @ pad2 (tm_mon t) @ pad2 (tm_mday t) @ ''-'' @
     pad2 (tm_hour t) @ pad2 (tm_min t) @ pad2 (tm_sec t)"

text \<open>
  \<^verbatim>\<open>uuid.uuid4().hex\<close> is the UUID's 128-bit integer as 32 lowercase hexadecimal
  digits, the most significant first.
\<close>

definition hex_char :: "nat \<Rightarrow> char" where
  "hex_char n = ''0123456789abcdef'' ! (n mod 16)"

definition uuid_hex :: "128 word \<Rightarrow> string" where
  "uuid_hex u = map (\<lambda>i. hex_char (unat u div 16 ^ i)) (rev [0..<32])"

definition file_key :: "tm \<Rightarrow> 128 word \<Rightarrow> string" where
  "file_key t u = ''recordings/webcam-'' @ strftime t @ ''-'' @ take 8 (uuid_hex u) @ ''.mkv''"

text \<open>
  The naming convention \<^verbatim>\<open>recordings/webcam-<YYYYMMDD-HHMMSS>-<8 hex chars>.<ext>\<close>,
  as a check on a key.
\<close>

definition is_digit :: "char \<Rightarrow> bool" where
  "is_digit c = (c \<in> set ''0123456789'')"

definition is_hex :: "char \<Rightarrow> bool" where
  "is_hex c = (c \<in> set ''0123456789abcdef'')"

definition matches_convention :: "string \<Rightarrow> string \<Rightarrow> bool" where
  "matches_convention ext k =
     (take 18 k = ''recordings/webcam-'' \<and>
      list_all is_digit (take 8 (drop 18 k)) \<and>
      take 1 (drop 26 k) = ''-'' \<and>
      list_all is_digit (take 6 (drop 27 k)) \<and>
      take 1 (drop 33 k) = ''-'' \<and>
      list_all is_hex (take 8 (drop 34 k)) \<and>
      drop 42 k = ''.'' @ ext)"

text \<open>The ranges of a \<^verbatim>\<open>struct_time\<close>, for a year of four digits.\<close>

definition valid_tm :: "tm \<Rightarrow> bool" where
  "valid_tm t =
     (1000 \<le> tm_year t \<and> tm_year t \<le> 9999 \<and> 1 \<le> tm_mon t \<and> tm_mon t \<le> 12 \<and>
      1 \<le> tm_mday t \<and> tm_mday t \<le> 31 \<and> tm_hour t \<le> 23 \<and> tm_min t \<le> 59 \<and>
      tm_sec t \<le> 61)"

section \<open>upload_to_s3 (lines 51 to 77)\<close>

definition s3_url :: "config \<Rightarrow> string \<Rightarrow> string" where
  "s3_url cfg k =
     ''https://'' @ s3_bucket cfg @ ''.s3.'' @ aws_region cfg @ ''.amazonaws.com/'' @ k"

definition uploaded_status :: "('f, 'c, 'p) env \<Rightarrow> bytes \<Rightarrow> string" where
  "uploaded_status env video_bytes =
     check_mark @ '' Uploaded! ('' @ format_mb env (length video_bytes) @ ''MB)''"

text \<open>
  The body of the \<^verbatim>\<open>try\<close>: \<open>Inl\<close> the exception that leaves it, with the calls made
  so far. The session state changes only on line 68, after the last call that can raise.
\<close>

definition upload_try ::
  "('f, 'c, 'p) env \<Rightarrow> config \<Rightarrow> bytes \<Rightarrow> 'f session_state \<Rightarrow>
     (exn + 'f session_state) \<times> 'f event list" where
  "upload_try env cfg video_bytes s =
     (case s3_client env of
        Some e \<Rightarrow> (Inl e, [Ev_s3_client])
      | None \<Rightarrow>
          (let k = file_key (localtime env) (uuid4 env);
               put = Ev_put_object (s3_bucket cfg) k video_bytes ''video/x-matroska''
           in case put_object env (s3_bucket cfg) k video_bytes ''video/x-matroska'' of
                Some e \<Rightarrow> (Inl e, [Ev_s3_client, St_progress 0, put])
              | None \<Rightarrow>
                  (Inr (s(''status'' \<mapsto> PStr (uploaded_status env video_bytes))),
                   [Ev_s3_client, St_progress 0, put, St_progress 100,
                    St_success (''**Video saved**: ['' @ k @ '']('' @ s3_url cfg k @ '')''),
                    St_balloons])))"

text \<open>
  The three \<^verbatim>\<open>except\<close> clauses, in the source's order; the last one,
  \<^verbatim>\<open>except Exception\<close>, takes every exception of the model.
\<close>

fun upload_except :: "config \<Rightarrow> exn \<Rightarrow> string" where
  "upload_except cfg NoCredentialsError =
     cross_mark @ '' **AWS credentials invalid**. Check Streamlit secrets.''"
| "upload_except cfg (ClientError m) =
     cross_mark @ '' **S3 Error**: '' @ exn_str (ClientError m) @ ''. Verify bucket `'' @
       s3_bucket cfg @ ''` exists + IAM permissions.''"
| "upload_except cfg e = cross_mark @ '' **Upload failed**: '' @ exn_str e"

text \<open>
  The first component is the exception \<^verbatim>\<open>upload_to_s3\<close> lets through to its caller,
  if any.
\<close>

definition upload_to_s3 ::
  "('f, 'c, 'p) env \<Rightarrow> config \<Rightarrow> bytes \<Rightarrow> 'f session_state \<Rightarrow>
     exn option \<times> 'f session_state \<times> 'f event list" where
  "upload_to_s3 env cfg video_bytes s =
     (case upload_try env cfg video_bytes s of
        (Inr s1, evs) \<Rightarrow> (None, s1, evs)
      | (Inl e, evs) \<Rightarrow> (None, s, evs @ [St_error (upload_except cfg e)]))"

section \<open>The stop handler (lines 118 to 142)\<close>

text \<open>
  The loop of lines 130 to 134 over the frames, from the container state \<open>c\<close>. There is
  no \<^verbatim>\<open>try\<close> in the loop: the first call that raises ends it. \<^verbatim>\<open>stream.encode\<close>
  returns a list of packets, and \<^verbatim>\<open>if packet:\<close> skips the empty list.
\<close>

fun encode_loop ::
  "('f, 'c, 'p) av_lib \<Rightarrow> 'c \<Rightarrow> 'f list \<Rightarrow> (exn + 'c) \<times> 'f event list" where
  "encode_loop lib c [] = (Inr c, [])"
| "encode_loop lib c (frame # rest) =
     (case av_reformat lib frame of
        Inl e \<Rightarrow> (Inl e, [Ev_reformat frame])
      | Inr frame_converted \<Rightarrow>
          (case av_encode lib c frame_converted of
             Inl e \<Rightarrow> (Inl e, [Ev_reformat frame, Ev_encode frame_converted])
           | Inr (c1, packet) \<Rightarrow>
               if packet \<noteq> [] then
                 (case av_mux lib c1 packet of
                    Inl e \<Rightarrow> (Inl e, [Ev_reformat frame, Ev_encode frame_converted, Ev_mux])
                  | Inr c2 \<Rightarrow>
                      (let (r, evs) = encode_loop lib c2 rest
                       in (r, Ev_reformat frame # Ev_encode frame_converted # Ev_mux # evs)))
               else
                 (let (r, evs) = encode_loop lib c1 rest
                  in (r, Ev_reformat frame # Ev_encode frame_converted # evs))))"

text \<open>
  Lines 124 to 137 once \<^verbatim>\<open>io.BytesIO()\<close> has been evaluated: open the container,
  add the stream, run the loop, close, read the bytes. A value under \<^verbatim>\<open>frames\<close>
  that is not a list (the script stores none) is taken to fail the iteration with a
  TypeError.
\<close>

definition encode_frames ::
  "('f, 'c, 'p) av_lib \<Rightarrow> 'f pyval \<Rightarrow> (exn + bytes) \<times> 'f event list" where
  "encode_frames lib v =
     (case av_open lib of
        Inl e \<Rightarrow> (Inl e, [Ev_av_open])
      | Inr c0 \<Rightarrow>
     (case av_add_stream lib c0 of
        Inl e \<Rightarrow> (Inl e, [Ev_av_open, Ev_add_stream])
      | Inr c1 \<Rightarrow>
     (case v of
        PList fs \<Rightarrow>
          (case encode_loop lib c1 fs of
             (Inl e, evs) \<Rightarrow> (Inl e, Ev_av_open # Ev_add_stream # evs)
           | (Inr c2, evs) \<Rightarrow>
          (case av_close lib c2 of
             Inl e \<Rightarrow> (Inl e, Ev_av_open # Ev_add_stream # evs @ [Ev_close])
           | Inr c3 \<Rightarrow>
          (case av_output_bytes lib c3 of
             Inl e \<Rightarrow> (Inl e, Ev_av_open # Ev_add_stream # evs @ [Ev_close, Ev_output_bytes])
           | Inr video_bytes \<Rightarrow>
               (Inr video_bytes,
                Ev_av_open # Ev_add_stream # evs @ [Ev_close, Ev_output_bytes]))))
      | _ \<Rightarrow> (Inl (TypeError ''frames''), [Ev_av_open, Ev_add_stream]))))"

text \<open>
  Lines 124 to 140: encode, keep the bytes under \<^verbatim>\<open>recorded_video\<close>, upload, delete
  \<^verbatim>\<open>frames\<close>. The third component is the exception that leaves the block, if any.
\<close>

definition flush ::
  "('f, 'c, 'p) env \<Rightarrow> config \<Rightarrow> 'f pyval \<Rightarrow> 'f session_state \<Rightarrow>
     'f session_state \<times> 'f event list \<times> exn option" where
  "flush env cfg v s =
     (case encode_frames (av env) v of
        (Inl e, evs) \<Rightarrow> (s, evs, Some e)
      | (Inr video_bytes, evs) \<Rightarrow>
          (let s1 = s(''recorded_video'' \<mapsto> PBytes video_bytes) in
           case upload_to_s3 env cfg video_bytes s1 of
             (Some e, s2, evs2) \<Rightarrow> (s2, evs @ evs2, Some e)
           | (None, s2, evs2) \<Rightarrow>
               if ''frames'' \<in> dom s2 then (s2(''frames'' := None), evs @ evs2, None)
               else (s2, evs @ evs2, Some (AttributeError ''frames''))))"

text \<open>
  The names bound in the module when the handlers run: the imports of lines 1 to 7 and
  the assignments and definitions of the top level. Line 124 reads the name \<^verbatim>\<open>io\<close>,
  which no line binds and which is not a builtin: reading it raises NameError before
  \<^verbatim>\<open>av.open\<close> is called.
\<close>

definition module_names :: "string list" where
  "module_names =
     [''st'', ''boto3'', ''av'', ''time'', ''uuid'', ''NoCredentialsError'', ''ClientError'',
      ''webrtc_streamer'', ''RTCConfiguration'', ''WebRtcMode'',
      ''AWS_ACCESS_KEY_ID'', ''AWS_SECRET_ACCESS_KEY'', ''AWS_REGION'', ''S3_BUCKET'',
      ''get_s3_client'', ''video_frame_callback'', ''upload_to_s3'', ''rtc_config'',
      ''webrtc_ctx'', ''col1'', ''col2'']"

definition stop_handler ::
  "('f, 'c, 'p) env \<Rightarrow> config \<Rightarrow> 'f session_state \<Rightarrow>
     'f session_state \<times> 'f event list \<times> outcome" where
  "stop_handler env cfg s =
     (let s1 = s(''recording'' \<mapsto> PBool False, ''status'' \<mapsto> PStr ''Processing...'') in
      case s1 ''frames'' of
        None \<Rightarrow> (s1, [], Rerun)
      | Some v \<Rightarrow>
          if truthy v then
            (if ''io'' \<in> set module_names then
               (case flush env cfg v s1 of
                  (s2, evs, Some e) \<Rightarrow> (s2, evs, Raised e)
                | (s2, evs, None) \<Rightarrow> (s2, evs, Rerun))
             else (s1, [], Raised (NameError ''io'')))
          else (s1, [], Rerun))"

section \<open>The start handler (lines 112 to 116)\<close>

definition start_handler :: "('f, 'c, 'p) env \<Rightarrow> 'f session_state \<Rightarrow> 'f session_state" where
  "start_handler env s =
     s(''recording'' \<mapsto> PBool True, ''start_time'' \<mapsto> PFloat (time_time env),
       ''status'' \<mapsto> PStr ''Recording'', ''frames'' \<mapsto> PList [])"

section \<open>One run of the script\<close>

text \<open>
  Lines 101 to 107 draw the status; what they draw is left out, what they can raise is
  not: the elapsed time subtracts \<^verbatim>\<open>start_time\<close> from a float, a TypeError unless it
  holds a number.
\<close>

definition display :: "'f session_state \<Rightarrow> exn option" where
  "display s =
     (case s ''status'' of
        None \<Rightarrow> Some (AttributeError ''status'')
      | Some st \<Rightarrow>
          if st = PStr ''Recording'' then
            (case s ''start_time'' of
               None \<Rightarrow> Some (AttributeError ''start_time'')
             | Some (PFloat t) \<Rightarrow> None
             | Some (PBool b) \<Rightarrow> None
             | Some _ \<Rightarrow> Some (TypeError ''start_time''))
          else None)"

text \<open>
  Lines 145 to 158: the reset button, drawn on every run that gets this far, and the
  footer. \<^verbatim>\<open>st.button\<close> is true in the run its click triggered.
\<close>

definition reset_button ::
  "click \<Rightarrow> 'f session_state \<Rightarrow> 'f event list \<Rightarrow>
     'f session_state \<times> 'f event list \<times> outcome" where
  "reset_button clk s evs =
     (if clk = Click_reset then (reset_handler s, evs @ [Ui Button_reset], Rerun)
      else (s, evs @ [Ui Button_reset, Ui Markdown, Ui Info], Finished))"

text \<open>
  Lines 109 to 149. The start button is drawn, and can fire, only while the stream plays
  and \<^verbatim>\<open>recording\<close> is false; the stop button only while \<^verbatim>\<open>recording\<close> is true.
  A click on a button that this run does not draw is lost.
\<close>

definition controls ::
  "('f, 'c, 'p) env \<Rightarrow> config \<Rightarrow> click \<Rightarrow> 'f session_state \<Rightarrow>
     'f session_state \<times> 'f event list \<times> outcome" where
  "controls env cfg clk s =
     (case s ''recording'' of
        None \<Rightarrow> (s, [], Raised (AttributeError ''recording''))
      | Some r \<Rightarrow>
          if playing env \<and> \<not> truthy r then
            (if clk = Click_start then (start_handler env s, [Ui Button_start], Rerun)
             else reset_button clk s [Ui Button_start])
          else if truthy r then
            (if clk = Click_stop then
               (case stop_handler env cfg s of
                  (s1, evs, out) \<Rightarrow> (s1, Ui Button_stop # evs, out))
             else reset_button clk s [Ui Button_stop])
          else reset_button clk s [])"

text \<open>
  The whole script. Lines 10 to 17 come first: a KeyError from the secrets shows the
  error message and \<^verbatim>\<open>st.stop()\<close> ends the run there; any other exception of
  the secrets is not caught by line 15 and leaves the script.
\<close>

definition script_run ::
  "('f, 'c, 'p) env \<Rightarrow> click \<Rightarrow> 'f session_state \<Rightarrow>
     'f session_state \<times> 'f event list \<times> outcome" where
  "script_run env clk s =
     (case load_secrets (secrets env) of
        Inl (KeyError k) \<Rightarrow> (s, [St_error missing_secrets_msg], Stopped)
      | Inl e \<Rightarrow> (s, [], Raised e)
      | Inr cfg \<Rightarrow>
          (let s1 = init_session_state s;
               ui = [Ui Title, Ui Markdown, Ui Webrtc_streamer]
           in case display s1 of
                Some e \<Rightarrow> (s1, ui, Raised e)
              | None \<Rightarrow>
                  (case controls env cfg clk s1 of
                     (s2, evs, out) \<Rightarrow> (s2, ui @ Ui Metric # evs, out))))"

text \<open>
  A user interaction: the run its click triggers and, when that run ends in
  \<^verbatim>\<open>st.rerun()\<close>, the run that follows at once, without a click.
\<close>

definition user_step ::
  "('f, 'c, 'p) env \<Rightarrow> click \<Rightarrow> 'f session_state \<Rightarrow>
     'f session_state \<times> 'f event list \<times> outcome" where
  "user_step env clk s =
     (case script_run env clk s of
        (s1, evs, out) \<Rightarrow>
          if out = Rerun then
            (case script_run env No_click s1 of
               (s2, evs2, out2) \<Rightarrow> (s2, evs @ evs2, out2))
          else (s1, evs, out))"

text \<open>
  Line 89 hands the callback to \<^verbatim>\<open>webrtc_streamer\<close>, its only caller, which runs it
  on the media thread of the component. That thread has no script run context:
  \<^verbatim>\<open>st.session_state\<close> is there a fresh session state with none of the session's
  keys, and what the callback stores in it never reaches the session.
\<close>

definition media_thread_state :: "'f session_state" where
  "media_thread_state = Map.empty"

definition deliver :: "'f \<Rightarrow> (exn + 'f) \<times> 'f session_state" where
  "deliver frame = video_frame_callback media_thread_state frame"

text \<open>
  A history of the session: user interactions, each in its own environment, and frames
  delivered by the transport between them. A delivery runs \<open>deliver\<close>; the session
  state of the script is not what the callback reads or writes.
\<close>

datatype ('f, 'c, 'p) op = User "('f, 'c, 'p) env" click | Deliver 'f

fun apply_op :: "'f session_state \<Rightarrow> ('f, 'c, 'p) op \<Rightarrow> 'f session_state" where
  "apply_op s (User env clk) = fst (user_step env clk s)"
| "apply_op s (Deliver frame) = (case deliver frame of (result, thread_state) \<Rightarrow> s)"

definition exec :: "('f, 'c, 'p) op list \<Rightarrow> 'f session_state" where
  "exec ops = foldl apply_op Map.empty ops"

text \<open>The recording flag as the handlers test it.\<close>

definition recording_active :: "'f session_state \<Rightarrow> bool" where
  "recording_active s = (case s ''recording'' of None \<Rightarrow> False | Some r \<Rightarrow> truthy r)"

text \<open>The frame buffer: the list under \<^verbatim>\<open>frames\<close>, empty when nothing is stored.\<close>

definition frame_buffer :: "'f session_state \<Rightarrow> 'f list" where
  "frame_buffer s = (case s ''frames'' of Some (PList fs) \<Rightarrow> fs | _ \<Rightarrow> [])"

text \<open>
  What every history keeps true of the session state: the flag is set exactly when the
  status text is \<^verbatim>\<open>Recording\<close>, and \<^verbatim>\<open>frames\<close>, when set, holds a list.
\<close>

definition flag_inv :: "'f session_state \<Rightarrow> bool" where
  "flag_inv s =
     ((recording_active s \<longleftrightarrow> s ''status'' = Some (PStr ''Recording'')) \<and>
      (s ''frames'' = None \<or> (\<exists>fs. s ''frames'' = Some (PList fs))))"

section \<open>Concrete inputs\<close>

text \<open>
  An encoder that accepts every frame and yields one packet per frame, and one whose
  \<^verbatim>\<open>reformat\<close> fails on frame 2. Frames, container states and packets are numbers.
\<close>

definition demo_lib :: "(nat, nat, nat) av_lib" where
  "demo_lib =
     \<lparr>av_open = Inr 0, av_add_stream = (\<lambda>c. Inr c), av_reformat = (\<lambda>f. Inr f),
      av_encode = (\<lambda>c f. Inr (Suc c, [f])), av_mux = (\<lambda>c p. Inr c),
      av_close = (\<lambda>c. Inr c), av_output_bytes = (\<lambda>c. Inr [1, 2, 3])\<rparr>"


definition demo_secrets :: "string \<rightharpoonup> string" where
  "demo_secrets =
     [''AWS_ACCESS_KEY_ID'' \<mapsto> ''AKIAEXAMPLE'', ''AWS_SECRET_ACCESS_KEY'' \<mapsto> ''secret'',
      ''S3_BUCKET'' \<mapsto> ''clips'']"

definition demo_cfg :: config where
  "demo_cfg =
     \<lparr>aws_access_key_id = ''AKIAEXAMPLE'', aws_secret_access_key = ''secret'',
      aws_region = ''us-east-1'', s3_bucket = ''clips''\<rparr>"

definition demo_tm :: tm where
  "demo_tm = \<lparr>tm_year = 2026, tm_mon = 11, tm_mday = 4, tm_hour = 9, tm_min = 42, tm_sec = 7\<rparr>"

text \<open>
  A playing stream and a bucket that accepts the upload; \<open>denied_env\<close> is the same with
  a bucket that answers every \<^verbatim>\<open>put_object\<close> with an access-denied ClientError.
\<close>

definition demo_env :: "(nat, nat, nat) env" where
  "demo_env =
     \<lparr>secrets = Some demo_secrets, playing = True, time_time = 100, localtime = demo_tm,
      uuid4 = 0x0123456789abcdef0123456789abcdef, av = demo_lib, s3_client = None,
      put_object = (\<lambda>bucket k body ct. None), format_mb = (\<lambda>n. ''0.0'')\<rparr>"

definition denied_env :: "(nat, nat, nat) env" where
  "denied_env =
     demo_env\<lparr>put_object := (\<lambda>bucket k body ct. Some (ClientError ''AccessDenied''))\<rparr>"

text \<open>The session state while recording, with one frame in the buffer, and when ready.\<close>

definition recording_state :: "nat session_state" where
  "recording_state =
     [''recording'' \<mapsto> PBool True, ''recorded_video'' \<mapsto> PNone,
      ''status'' \<mapsto> PStr ''Recording'', ''start_time'' \<mapsto> PFloat 100,
      ''frames'' \<mapsto> PList [1]]"

definition ready_state :: "nat session_state" where
  "ready_state =
     [''recording'' \<mapsto> PBool False, ''recorded_video'' \<mapsto> PNone,
      ''status'' \<mapsto> PStr ''Ready'', ''start_time'' \<mapsto> PNone]"

section \<open>How each part of the script changes the session state\<close>

lemma set_default_apply:
  "set_default k v s k' = (if k' = k \<and> s k = None then Some v else s k')"
  by (auto simp: set_default_def)

lemma init_apply:
  "init_session_state s k =
     (if k = ''start_time'' \<and> s k = None then Some PNone
      else if k = ''status'' \<and> s k = None then Some (PStr ''Ready'')
      else if k = ''recorded_video'' \<and> s k = None then Some PNone
      else if k = ''recording'' \<and> s k = None then Some (PBool False)
      else s k)"
  by (auto simp: init_session_state_def set_default_def)

lemma del_if_present_apply: "del_if_present s k k' = (if k' = k then None else s k')"
  by (auto simp: del_if_present_def)

lemma foldl_del_apply: "foldl del_if_present s ks k = (if k \<in> set ks then None else s k)"
  by (induction ks arbitrary: s) (simp_all add: del_if_present_apply)

lemma foldl_del_idem:
  "foldl del_if_present (foldl del_if_present s ks) ks = foldl del_if_present s ks"
  by (rule ext) (simp add: foldl_del_apply)

lemma reset_handler_apply:
  "reset_handler s k =
     (if k \<in> set [''recording'', ''recorded_video'', ''status'', ''start_time'', ''frames'']
      then None else s k)"
  unfolding reset_handler_def by (rule foldl_del_apply)

lemma reset_reset: "reset_handler (reset_handler s) = reset_handler s"
  unfolding reset_handler_def by (rule foldl_del_idem)

lemma reset_init: "reset_handler (init_session_state s) = reset_handler s"
  by (rule ext) (simp add: reset_handler_apply init_apply)

lemma uploaded_status_neq: "uploaded_status env b \<noteq> ''Recording''"
  by (simp add: uploaded_status_def check_mark_def)

lemma upload_to_s3_returns: "fst (upload_to_s3 env cfg b s) = None"
  by (simp add: upload_to_s3_def split: prod.splits sum.splits)

lemma upload_to_s3_state:
  "fst (snd (upload_to_s3 env cfg b s)) = s \<or>
   fst (snd (upload_to_s3 env cfg b s)) = s(''status'' \<mapsto> PStr (uploaded_status env b))"
  by (auto simp: upload_to_s3_def upload_try_def Let_def split: prod.splits sum.splits option.splits)

lemma upload_to_s3_other:
  "k \<noteq> ''status'' \<Longrightarrow> fst (snd (upload_to_s3 env cfg b s)) k = s k"
  using upload_to_s3_state [of env cfg b s] by auto

lemma upload_to_s3_status:
  "fst (snd (upload_to_s3 env cfg b s)) ''status'' = s ''status'' \<or>
   fst (snd (upload_to_s3 env cfg b s)) ''status'' = Some (PStr (uploaded_status env b))"
  using upload_to_s3_state [of env cfg b s] by auto


lemma flush_encode_ok:
  assumes "encode_frames (av env) v = (Inr b, evs)" and "s ''frames'' \<noteq> None"
  shows "flush env cfg v s =
           ((fst (snd (upload_to_s3 env cfg b (s(''recorded_video'' \<mapsto> PBytes b)))))
              (''frames'' := None),
            evs @ snd (snd (upload_to_s3 env cfg b (s(''recorded_video'' \<mapsto> PBytes b)))),
            None)"
proof -
  let ?u = "upload_to_s3 env cfg b (s(''recorded_video'' \<mapsto> PBytes b))"
  have r: "fst ?u = None" by (rule upload_to_s3_returns)
  have f: "fst (snd ?u) ''frames'' = s ''frames''"
    by (simp add: upload_to_s3_other)
  obtain x s2 evs2 where u: "?u = (x, s2, evs2)" by (cases ?u) auto
  with r f assms show ?thesis
    by (auto simp: flush_def Let_def dom_def)
qed

lemma flush_cases:
  assumes "flush env cfg v s = (s', evs, r)"
  shows "s' = s \<or>
         (\<exists>b. s' = fst (snd (upload_to_s3 env cfg b (s(''recorded_video'' \<mapsto> PBytes b)))) \<or>
              s' = (fst (snd (upload_to_s3 env cfg b (s(''recorded_video'' \<mapsto> PBytes b)))))
                     (''frames'' := None))"
proof (cases "encode_frames (av env) v")
  case (Pair res evs0)
  show ?thesis
  proof (cases res)
    case (Inl e)
    with Pair assms show ?thesis by (simp add: flush_def)
  next
    case (Inr b)
    obtain x s2 evs2 where u: "upload_to_s3 env cfg b (s(''recorded_video'' \<mapsto> PBytes b)) = (x, s2, evs2)"
      by (cases "upload_to_s3 env cfg b (s(''recorded_video'' \<mapsto> PBytes b))") auto
    have "s' = s2 \<or> s' = s2(''frames'' := None)"
      using assms Pair Inr u
      by (auto simp: flush_def Let_def split: option.splits if_splits)
    with u show ?thesis by (metis fst_conv snd_conv)
  qed
qed

lemma flush_keys:
  assumes "flush env cfg v s = (s', evs, r)"
  shows "s' ''recording'' = s ''recording''"
    and "s' ''frames'' = s ''frames'' \<or> s' ''frames'' = None"
    and "s' ''status'' = s ''status'' \<or> (\<exists>b. s' ''status'' = Some (PStr (uploaded_status env b)))"
proof -
  note c = flush_cases [OF assms]
  from c show "s' ''recording'' = s ''recording''"
    by (auto simp: upload_to_s3_other)
  from c show "s' ''frames'' = s ''frames'' \<or> s' ''frames'' = None"
    by (auto simp: upload_to_s3_other)
  from c show "s' ''status'' = s ''status'' \<or> (\<exists>b. s' ''status'' = Some (PStr (uploaded_status env b)))"
  proof (elim disjE exE)
    assume "s' = s" then show ?thesis by simp
  next
    fix b
    assume "s' = fst (snd (upload_to_s3 env cfg b (s(''recorded_video'' \<mapsto> PBytes b))))"
    with upload_to_s3_status [of env cfg b "s(''recorded_video'' \<mapsto> PBytes b)"]
    show ?thesis by auto
  next
    fix b
    assume "s' = (fst (snd (upload_to_s3 env cfg b (s(''recorded_video'' \<mapsto> PBytes b)))))
                     (''frames'' := None)"
    with upload_to_s3_status [of env cfg b "s(''recorded_video'' \<mapsto> PBytes b)"]
    show ?thesis by auto
  qed
qed

lemma stop_handler_keys:
  assumes "stop_handler env cfg s = (s', evs, out)"
  shows "s' ''recording'' = Some (PBool False)"
    and "s' ''frames'' = s ''frames'' \<or> s' ''frames'' = None"
    and "s' ''status'' \<noteq> Some (PStr ''Recording'')"
proof -
  let ?s1 = "s(''recording'' \<mapsto> PBool False, ''status'' \<mapsto> PStr ''Processing...'')"
  have c: "s' = ?s1 \<or> (\<exists>v evs' r. flush env cfg v ?s1 = (s', evs', r))"
    using assms
    by (auto simp: stop_handler_def Let_def split: option.splits if_splits prod.splits)
  from c show "s' ''recording'' = Some (PBool False)"
    by (auto dest: flush_keys(1))
  from c show "s' ''frames'' = s ''frames'' \<or> s' ''frames'' = None"
    by (auto dest: flush_keys(2))
  from c show "s' ''status'' \<noteq> Some (PStr ''Recording'')"
    by (auto dest!: flush_keys(3) simp: uploaded_status_neq)
qed


lemma flag_inv_init: "flag_inv s \<Longrightarrow> flag_inv (init_session_state s)"
  by (auto simp: flag_inv_def recording_active_def init_apply split: option.splits)

lemma flag_inv_start: "flag_inv (start_handler env s)"
  by (simp add: flag_inv_def recording_active_def start_handler_def)

lemma flag_inv_reset: "flag_inv (reset_handler s)"
  by (simp add: flag_inv_def recording_active_def reset_handler_apply)

lemma flag_inv_stop:
  assumes "flag_inv s" and "stop_handler env cfg s = (s', evs, out)"
  shows "flag_inv s'"
  using assms(1) stop_handler_keys [OF assms(2)]
  by (auto simp: flag_inv_def recording_active_def)

lemma reset_button_state:
  "fst (reset_button clk s evs) = s \<or> fst (reset_button clk s evs) = reset_handler s"
  by (simp add: reset_button_def)

lemma controls_state:
  "fst (controls env cfg clk s) = s \<or>
   fst (controls env cfg clk s) = reset_handler s \<or>
   fst (controls env cfg clk s) = start_handler env s \<or>
   fst (controls env cfg clk s) = fst (stop_handler env cfg s)"
  using reset_button_state [of clk s]
  by (auto simp: controls_def split: option.splits prod.splits)

lemma flag_inv_stop': "flag_inv s \<Longrightarrow> flag_inv (fst (stop_handler env cfg s))"
  by (cases "stop_handler env cfg s") (auto dest: flag_inv_stop)

lemma flag_inv_controls: "flag_inv s \<Longrightarrow> flag_inv (fst (controls env cfg clk s))"
  using controls_state [of env cfg clk s]
  by (auto simp: flag_inv_start flag_inv_reset flag_inv_stop')

lemma script_run_state:
  "fst (script_run env clk s) = s \<or>
   fst (script_run env clk s) = init_session_state s \<or>
   (\<exists>cfg. fst (script_run env clk s) = fst (controls env cfg clk (init_session_state s)))"
proof (cases "load_secrets (secrets env)")
  case (Inl e)
  then show ?thesis by (cases e) (simp_all add: script_run_def)
next
  case (Inr cfg)
  then have "fst (script_run env clk s) = init_session_state s \<or>
             fst (script_run env clk s) = fst (controls env cfg clk (init_session_state s))"
    by (simp add: script_run_def Let_def split: option.splits prod.splits)
  then show ?thesis by blast
qed

lemma flag_inv_script_run: "flag_inv s \<Longrightarrow> flag_inv (fst (script_run env clk s))"
  using script_run_state [of env clk s]
  by (auto simp: flag_inv_init flag_inv_controls)

lemma user_step_state:
  "fst (user_step env clk s) = fst (script_run env clk s) \<or>
   fst (user_step env clk s) = fst (script_run env No_click (fst (script_run env clk s)))"
  by (auto simp: user_step_def split: prod.splits)

lemma flag_inv_user_step: "flag_inv s \<Longrightarrow> flag_inv (fst (user_step env clk s))"
  using user_step_state [of env clk s]
  by (auto simp: flag_inv_script_run)

lemma callback_state:
  "snd (video_frame_callback s frame) =
     (if recording_active s then
        (case s ''frames'' of
           None \<Rightarrow> s(''frames'' \<mapsto> PList [frame])
         | Some (PList fs) \<Rightarrow> s(''frames'' \<mapsto> PList (fs @ [frame]))
         | Some _ \<Rightarrow> s)
      else s)"
  by (auto simp: video_frame_callback_def recording_active_def Let_def dom_def
           split: option.splits pyval.splits)

lemma flag_inv_callback: "flag_inv s \<Longrightarrow> flag_inv (snd (video_frame_callback s frame))"
  by (auto simp: callback_state flag_inv_def recording_active_def split: option.splits pyval.splits)

lemma flag_inv_apply_op: "flag_inv s \<Longrightarrow> flag_inv (apply_op s op)"
  by (cases op) (simp_all add: flag_inv_user_step split: prod.splits)

lemma flag_inv_foldl: "flag_inv s \<Longrightarrow> flag_inv (foldl apply_op s ops)"
  by (induction ops arbitrary: s) (simp_all add: flag_inv_apply_op)

lemma flag_inv_exec: "flag_inv (exec ops)"
  unfolding exec_def by (rule flag_inv_foldl) (simp add: flag_inv_def recording_active_def)

lemma frame_buffer_init: "frame_buffer (init_session_state s) = frame_buffer s"
  by (simp add: frame_buffer_def init_apply)

lemma frame_buffer_stop:
  "frame_buffer (fst (stop_handler env cfg s)) = frame_buffer s \<or>
   frame_buffer (fst (stop_handler env cfg s)) = []"
proof (cases "stop_handler env cfg s")
  case (fields s' evs out)
  from stop_handler_keys(2) [OF fields] fields show ?thesis
    by (auto simp: frame_buffer_def)
qed


lemma frame_buffer_controls:
  "frame_buffer (fst (controls env cfg clk s)) = frame_buffer s \<or>
   frame_buffer (fst (controls env cfg clk s)) = []"
  using controls_state [of env cfg clk s] frame_buffer_stop [of env cfg s]
  by (auto simp: frame_buffer_def reset_handler_apply start_handler_def)

lemma frame_buffer_script_run:
  "frame_buffer (fst (script_run env clk s)) = frame_buffer s \<or>
   frame_buffer (fst (script_run env clk s)) = []"
proof -
  have "frame_buffer (fst (controls env cfg clk (init_session_state s))) = frame_buffer s \<or>
        frame_buffer (fst (controls env cfg clk (init_session_state s))) = []" for cfg
    using frame_buffer_controls [of env cfg clk "init_session_state s"]
    by (simp add: frame_buffer_init)
  with script_run_state [of env clk s] show ?thesis
    by (elim disjE exE) (simp_all add: frame_buffer_init)
qed

lemma frame_buffer_user_step:
  "frame_buffer (fst (user_step env clk s)) = frame_buffer s \<or>
   frame_buffer (fst (user_step env clk s)) = []"
  using user_step_state [of env clk s] frame_buffer_script_run [of env clk s]
    frame_buffer_script_run [of env No_click "fst (script_run env clk s)"]
  by auto

lemma display_after_reset: "display (init_session_state (reset_handler s)) = None"
  by (simp add: display_def init_apply reset_handler_apply)

lemma controls_no_click_after_reset:
  "controls env cfg No_click (init_session_state (reset_handler s)) =
     (init_session_state (reset_handler s),
      (if playing env then [Ui Button_start] else []) @ [Ui Button_reset, Ui Markdown, Ui Info],
      Finished)"
  by (simp add: controls_def init_apply reset_handler_apply reset_button_def)

lemma controls_reset_click:
  "s ''recording'' \<noteq> None \<Longrightarrow>
   fst (controls env cfg Click_reset s) = reset_handler s \<and>
   snd (snd (controls env cfg Click_reset s)) = Rerun"
  by (auto simp: controls_def reset_button_def)

lemma init_recording_set: "init_session_state s ''recording'' \<noteq> None"
  by (simp add: init_apply)

lemma user_step_rerun:
  assumes "script_run env clk s = (s1, evs, Rerun)"
  shows "fst (user_step env clk s) = fst (script_run env No_click s1)"
    and "snd (snd (user_step env clk s)) = snd (snd (script_run env No_click s1))"
  using assms by (auto simp: user_step_def split: prod.splits)

lemma user_step_reset:
  assumes "load_secrets (secrets env) = Inr cfg" and "display (init_session_state s) = None"
  shows "fst (user_step env Click_reset s) = init_session_state (reset_handler s)"
    and "snd (snd (user_step env Click_reset s)) = Finished"
proof -
  let ?s1 = "init_session_state s"
  have c: "fst (controls env cfg Click_reset ?s1) = reset_handler s"
          "snd (snd (controls env cfg Click_reset ?s1)) = Rerun"
    using controls_reset_click [of "init_session_state s" env cfg] init_recording_set [of s]
    by (simp_all add: reset_init)
  obtain evs where r1: "script_run env Click_reset s = (reset_handler s, evs, Rerun)"
    using assms c by (cases "controls env cfg Click_reset ?s1") (auto simp: script_run_def Let_def)
  have r2: "fst (script_run env No_click (reset_handler s)) = init_session_state (reset_handler s)"
           "snd (snd (script_run env No_click (reset_handler s))) = Finished"
    using assms(1)
    by (simp_all add: script_run_def Let_def display_after_reset controls_no_click_after_reset)
  from r2 show "fst (user_step env Click_reset s) = init_session_state (reset_handler s)"
    by (simp add: user_step_rerun(1) [OF r1])
  from r2 show "snd (snd (user_step env Click_reset s)) = Finished"
    by (simp add: user_step_rerun(2) [OF r1])
qed

lemma demo_load: "load_secrets (secrets demo_env) = Inr demo_cfg"
  by (simp add: load_secrets_def demo_env_def demo_secrets_def demo_cfg_def)

lemma recording_state_init: "init_session_state recording_state = recording_state"
  by (simp add: init_session_state_def set_default_def recording_state_def)

lemma recording_state_display: "display recording_state = None"
  by (simp add: display_def recording_state_def)

section \<open>Reset (claim C8)\<close>

text \<open>
  Claim C8. Reset is idempotent and valid from any state. The handler of lines 145 to
  149 deletes the five keys, so applying it twice is applying it once; the run that
  \<^verbatim>\<open>st.rerun()\<close> starts then sets the defaults of lines 23 to 30: \<^verbatim>\<open>recording\<close>
  false, status \<^verbatim>\<open>Ready\<close>, \<^verbatim>\<open>start_time\<close> None, no \<^verbatim>\<open>frames\<close>. As a user
  interaction (valid secrets, and a state whose status line can be drawn), a click on
  the reset button ends in that state whatever the state before, and a second click
  gives the same state again.
\<close>

theorem reset_idempotent:
  "reset_handler (reset_handler s) = reset_handler s \<and>
   init_session_state (reset_handler s) ''recording'' = Some (PBool False) \<and>
   init_session_state (reset_handler s) ''status'' = Some (PStr ''Ready'') \<and>
   init_session_state (reset_handler s) ''start_time'' = Some PNone \<and>
   init_session_state (reset_handler s) ''recorded_video'' = Some PNone \<and>
   init_session_state (reset_handler s) ''frames'' = None \<and>
   frame_buffer (init_session_state (reset_handler s)) = [] \<and>
   (load_secrets (secrets env) = Inr cfg \<and> display (init_session_state s) = None \<longrightarrow>
      fst (user_step env Click_reset s) = init_session_state (reset_handler s) \<and>
      snd (snd (user_step env Click_reset s)) = Finished \<and>
      fst (user_step env Click_reset (fst (user_step env Click_reset s))) =
        fst (user_step env Click_reset s))"
proof (intro conjI impI)
  show "reset_handler (reset_handler s) = reset_handler s" by (rule reset_reset)
next
  assume a: "load_secrets (secrets env) = Inr cfg \<and> display (init_session_state s) = None"
  then show f: "fst (user_step env Click_reset s) = init_session_state (reset_handler s)"
    by (simp add: user_step_reset(1))
  from a show "snd (snd (user_step env Click_reset s)) = Finished"
    by (simp add: user_step_reset(2))
  have d: "display (init_session_state (init_session_state (reset_handler s))) = None"
    by (simp add: display_def init_apply reset_handler_apply)
  from a d have "fst (user_step env Click_reset (init_session_state (reset_handler s))) =
      init_session_state (reset_handler (init_session_state (reset_handler s)))"
    by (simp add: user_step_reset(1))
  then show "fst (user_step env Click_reset (fst (user_step env Click_reset s))) =
        fst (user_step env Click_reset s)"
    by (simp add: f reset_init reset_reset)
qed (simp_all add: init_apply reset_handler_apply frame_buffer_def)

theorem reset_idempotent_witness:
  "load_secrets (secrets demo_env) = Inr demo_cfg \<and>
   display (init_session_state recording_state) = None \<and>
   fst (user_step demo_env Click_reset recording_state) ''status'' = Some (PStr ''Ready'') \<and>
   fst (user_step demo_env Click_reset recording_state) ''frames'' = None \<and>
   fst (user_step demo_env Click_reset (fst (user_step demo_env Click_reset recording_state))) =
     fst (user_step demo_env Click_reset recording_state)"
proof -
  have h: "load_secrets (secrets demo_env) = Inr demo_cfg \<and>
           display (init_session_state recording_state) = None"
    by (simp add: demo_load recording_state_init recording_state_display)
  from reset_idempotent [of recording_state demo_env demo_cfg] h
  have "fst (user_step demo_env Click_reset recording_state) =
          init_session_state (reset_handler recording_state)"
    and "init_session_state (reset_handler recording_state) ''status'' = Some (PStr ''Ready'')"
    and "init_session_state (reset_handler recording_state) ''frames'' = None"
    and "fst (user_step demo_env Click_reset
            (fst (user_step demo_env Click_reset recording_state))) =
         fst (user_step demo_env Click_reset recording_state)"
    by blast+
  with h show ?thesis by simp
qed

section \<open>Stopping with an empty buffer (claim C4)\<close>

lemma stop_handler_empty:
  "s ''frames'' = None \<or> s ''frames'' = Some (PList []) \<Longrightarrow>
   stop_handler env cfg s =
     (s(''recording'' \<mapsto> PBool False, ''status'' \<mapsto> PStr ''Processing...''), [], Rerun)"
  by (auto simp: stop_handler_def Let_def)

text \<open>
  Claim C4. When the buffer is empty (no \<^verbatim>\<open>frames\<close> key, or an empty list), the stop
  handler sets \<^verbatim>\<open>recording\<close> to false and the status to \<^verbatim>\<open>Processing...\<close>,
  makes no call at all (no encoder call, no \<^verbatim>\<open>put_object\<close>, no error message) and
  ends in \<^verbatim>\<open>st.rerun()\<close>, not in an exception; the buffer stays as it was. As a
  whole run of the script while recording, the only events are the widgets drawn.
\<close>

theorem stop_with_empty_buffer_short_circuits:
  assumes "s ''frames'' = None \<or> s ''frames'' = Some (PList [])"
  shows "stop_handler env cfg s =
           (s(''recording'' \<mapsto> PBool False, ''status'' \<mapsto> PStr ''Processing...''), [], Rerun) \<and>
         (load_secrets (secrets env) = Inr cfg \<and> display (init_session_state s) = None \<and>
          recording_active s \<longrightarrow>
            script_run env Click_stop s =
              ((init_session_state s)
                 (''recording'' \<mapsto> PBool False, ''status'' \<mapsto> PStr ''Processing...''),
               [Ui Title, Ui Markdown, Ui Webrtc_streamer, Ui Metric, Ui Button_stop], Rerun))"
proof (intro conjI impI)
  note h = stop_handler_empty
  show "stop_handler env cfg s =
      (s(''recording'' \<mapsto> PBool False, ''status'' \<mapsto> PStr ''Processing...''), [], Rerun)"
    using assms by (rule stop_handler_empty)
  assume a: "load_secrets (secrets env) = Inr cfg \<and> display (init_session_state s) = None \<and>
          recording_active s"
  have f: "init_session_state s ''frames'' = None \<or> init_session_state s ''frames'' = Some (PList [])"
    using assms by (simp add: init_apply)
  have r: "\<exists>r. init_session_state s ''recording'' = Some r \<and> truthy r"
    using a by (auto simp: recording_active_def init_apply split: option.splits)
  from a r h [of "init_session_state s" env cfg] f show "script_run env Click_stop s =
              ((init_session_state s)
                 (''recording'' \<mapsto> PBool False, ''status'' \<mapsto> PStr ''Processing...''),
               [Ui Title, Ui Markdown, Ui Webrtc_streamer, Ui Metric, Ui Button_stop], Rerun)"
    by (auto simp: script_run_def Let_def controls_def)
qed

theorem stop_with_empty_buffer_short_circuits_witness:
  "(recording_state(''frames'' \<mapsto> PList [])) ''frames'' = Some (PList []) \<and>
   load_secrets (secrets denied_env) = Inr demo_cfg \<and>
   recording_active (recording_state(''frames'' \<mapsto> PList [])) \<and>
   script_run denied_env Click_stop (recording_state(''frames'' \<mapsto> PList [])) =
     (recording_state(''frames'' \<mapsto> PList [], ''recording'' \<mapsto> PBool False,
        ''status'' \<mapsto> PStr ''Processing...''),
      [Ui Title, Ui Markdown, Ui Webrtc_streamer, Ui Metric, Ui Button_stop], Rerun)"
proof -
  let ?s = "recording_state(''frames'' \<mapsto> PList [])"
  have f: "?s ''frames'' = None \<or> ?s ''frames'' = Some (PList [])" by simp
  have l: "load_secrets (secrets denied_env) = Inr demo_cfg"
    by (simp add: denied_env_def demo_load)
  have i: "init_session_state ?s = ?s"
    by (simp add: init_session_state_def set_default_def recording_state_def)
  have d: "display (init_session_state ?s) = None"
    unfolding i by (simp add: display_def recording_state_def)
  have r: "recording_active ?s" by (simp add: recording_active_def recording_state_def)
  from stop_with_empty_buffer_short_circuits [of ?s denied_env demo_cfg] f l d r i
  show ?thesis by simp
qed

section \<open>Starting a recording (claim C2)\<close>

lemma ready_state_init: "init_session_state ready_state = ready_state"
  by (simp add: init_session_state_def set_default_def ready_state_def)

lemma recording_state_flag: "recording_state ''recording'' = Some (PBool True)"
  by (simp add: recording_state_def)

lemma ready_state_flag: "ready_state ''recording'' = Some (PBool False)"
  by (simp add: ready_state_def)

lemma ready_state_display: "display ready_state = None"
  by (simp add: display_def ready_state_def)

text \<open>
  Claim C2 as stated fails twice. A click on start while recording raises nothing:
  the run ends normally with the session state as it was, since the start button is
  not drawn. And in the ready state a click on start does nothing when the stream is
  not playing.
\<close>

theorem start_rejected_without_error:
  "script_run demo_env Click_start recording_state =
     (recording_state,
      [Ui Title, Ui Markdown, Ui Webrtc_streamer, Ui Metric, Ui Button_stop, Ui Button_reset,
       Ui Markdown, Ui Info],
      Finished) \<and>
   script_run (demo_env\<lparr>playing := False\<rparr>) Click_start ready_state =
     (ready_state,
      [Ui Title, Ui Markdown, Ui Webrtc_streamer, Ui Metric, Ui Button_reset, Ui Markdown,
       Ui Info],
      Finished)"
proof -
  have 1: "script_run demo_env Click_start recording_state =
     (recording_state,
      [Ui Title, Ui Markdown, Ui Webrtc_streamer, Ui Metric, Ui Button_stop, Ui Button_reset,
       Ui Markdown, Ui Info],
      Finished)"
    by (simp add: script_run_def demo_load recording_state_init recording_state_display
          controls_def reset_button_def recording_state_flag)
  have 2: "script_run (demo_env\<lparr>playing := False\<rparr>) Click_start ready_state =
     (ready_state,
      [Ui Title, Ui Markdown, Ui Webrtc_streamer, Ui Metric, Ui Button_reset, Ui Markdown,
       Ui Info],
      Finished)"
    by (simp add: script_run_def demo_load ready_state_init ready_state_display controls_def
          reset_button_def ready_state_flag)
  from 1 2 show ?thesis by (rule conjI)
qed

text \<open>
  Claim C2, amended. Start takes effect exactly when the stream is playing and the
  recording flag is false, whatever the status text: the handler then sets the flag,
  the start time and the status \<^verbatim>\<open>Recording\<close>, empties the buffer and reruns. In
  every other case a click on start is lost: the controls finish normally, no exception
  is raised and no error is shown, and the session state with its buffer is unchanged.
\<close>

theorem start_gated_by_playing_and_flag:
  assumes "s ''recording'' = Some r"
  shows "(playing env \<and> \<not> truthy r \<longrightarrow>
            controls env cfg Click_start s =
              (s(''recording'' \<mapsto> PBool True, ''start_time'' \<mapsto> PFloat (time_time env),
                 ''status'' \<mapsto> PStr ''Recording'', ''frames'' \<mapsto> PList []),
               [Ui Button_start], Rerun)) \<and>
         (truthy r \<longrightarrow>
            controls env cfg Click_start s =
              (s, [Ui Button_stop, Ui Button_reset, Ui Markdown, Ui Info], Finished)) \<and>
         (\<not> playing env \<and> \<not> truthy r \<longrightarrow>
            controls env cfg Click_start s = (s, [Ui Button_reset, Ui Markdown, Ui Info], Finished))"
  using assms by (simp add: controls_def start_handler_def reset_button_def)

theorem start_gated_by_playing_and_flag_witness:
  "ready_state ''recording'' = Some (PBool False) \<and> playing demo_env \<and>
   controls demo_env demo_cfg Click_start ready_state =
     (ready_state(''recording'' \<mapsto> PBool True, ''start_time'' \<mapsto> PFloat 100,
        ''status'' \<mapsto> PStr ''Recording'', ''frames'' \<mapsto> PList []),
      [Ui Button_start], Rerun) \<and>
   recording_state ''recording'' = Some (PBool True) \<and>
   controls demo_env demo_cfg Click_start recording_state =
     (recording_state, [Ui Button_stop, Ui Button_reset, Ui Markdown, Ui Info], Finished)"
proof -
  note a = ready_state_flag and b = recording_state_flag
  have p: "playing demo_env" and t: "time_time demo_env = 100" by (simp_all add: demo_env_def)
  from start_gated_by_playing_and_flag [of ready_state "PBool False" demo_env demo_cfg] a p t
  have 1: "controls demo_env demo_cfg Click_start ready_state =
     (ready_state(''recording'' \<mapsto> PBool True, ''start_time'' \<mapsto> PFloat 100,
        ''status'' \<mapsto> PStr ''Recording'', ''frames'' \<mapsto> PList []),
      [Ui Button_start], Rerun)"
    by simp
  from start_gated_by_playing_and_flag [of recording_state "PBool True" demo_env demo_cfg] b
  have 2: "controls demo_env demo_cfg Click_start recording_state =
     (recording_state, [Ui Button_stop, Ui Button_reset, Ui Markdown, Ui Info], Finished)"
    by simp
  from a b p 1 2 show ?thesis by blast
qed

section \<open>A frame that fails to normalise (claim C5)\<close>






section \<open>The shape of the object key\<close>

lemma is_digit_digit_char: "is_digit (digit_char n)"
  unfolding is_digit_def digit_char_def by (rule nth_mem) simp

lemma is_hex_hex_char: "is_hex (hex_char n)"
  unfolding is_hex_def hex_char_def by (rule nth_mem) simp

lemma decimal_small: "n < 10 \<Longrightarrow> decimal n = [digit_char n]"
  by (subst decimal.simps) simp

lemma decimal_large: "10 \<le> n \<Longrightarrow> decimal n = decimal (n div 10) @ [digit_char n]"
  by (subst decimal.simps) simp

lemma decimal_four_digits:
  assumes "1000 \<le> n" and "n \<le> 9999"
  shows "length (decimal n) = 4" and "list_all is_digit (decimal n)"
proof -
  have d: "decimal n =
      [digit_char (n div 10 div 10 div 10), digit_char (n div 10 div 10),
       digit_char (n div 10), digit_char n]"
    using assms
    by (simp add: decimal_large [of n] decimal_large [of "n div 10"]
          decimal_large [of "n div 10 div 10"] decimal_small [of "n div 10 div 10 div 10"])
  show "length (decimal n) = 4" by (simp only: d) simp
  show "list_all is_digit (decimal n)" by (simp only: d) (simp add: is_digit_digit_char)
qed

lemma pad2_shape: "length (pad2 n) = 2" "list_all is_digit (pad2 n)"
  by (simp_all add: pad2_def is_digit_digit_char)

lemma list4: "length xs = 4 \<Longrightarrow> \<exists>a b c d. xs = [a, b, c, d]"
  by (auto simp: eval_nat_numeral length_Suc_conv)

lemma list8: "length xs = 8 \<Longrightarrow> \<exists>a b c d e f g h. xs = [a, b, c, d, e, f, g, h]"
  by (auto simp: eval_nat_numeral length_Suc_conv)

lemma uuid_hex_length: "length (uuid_hex u) = 32"
  by (simp add: uuid_hex_def)

lemma take8_uuid_hex:
  "length (take 8 (uuid_hex u)) = 8" "list_all is_hex (take 8 (uuid_hex u))"
  by (auto simp: uuid_hex_length) (auto simp: uuid_hex_def list_all_iff is_hex_hex_char dest!: in_set_takeD)

lemma strftime_length: "valid_tm t \<Longrightarrow> length (strftime t) = 15"
  by (simp add: strftime_def valid_tm_def decimal_four_digits pad2_shape)

lemma rev_upt_32:
  "rev [0..<32] = [31, 30, 29, 28, 27, 26, 25, 24, 23, 22, 21, 20, 19, 18, 17, 16, 15, 14, 13,
     12, 11, 10, 9, 8, 7, 6, 5, 4, 3, 2, 1, 0::nat]"
  by code_simp

lemma demo_suffix: "take 8 (uuid_hex (uuid4 demo_env)) = ''01234567''"
  by (simp add: uuid_hex_def rev_upt_32 demo_env_def hex_char_def)

lemma demo_timestamp: "strftime demo_tm = ''20261104-094207''"
  by (simp add: strftime_def demo_tm_def pad2_def digit_char_def decimal_large decimal_small)

lemma demo_key:
  "file_key (localtime demo_env) (uuid4 demo_env) =
     ''recordings/webcam-20261104-094207-01234567.mkv''"
  using demo_suffix demo_timestamp by (simp add: file_key_def demo_env_def)

lemma demo_env_calls:
  "s3_client demo_env = None" "put_object demo_env bucket k body ct = None"
  by (simp_all add: demo_env_def)

lemma demo_tm_valid: "valid_tm (localtime demo_env)"
  by (simp add: valid_tm_def demo_env_def demo_tm_def)

lemma file_key_matches:
  assumes "valid_tm t"
  shows "matches_convention ''mkv'' (file_key t u)"
proof -
  from assms have y: "length (decimal (tm_year t)) = 4" "list_all is_digit (decimal (tm_year t))"
    by (simp_all add: valid_tm_def decimal_four_digits)
  from list4 [OF y(1)] obtain y1 y2 y3 y4 where yy: "decimal (tm_year t) = [y1, y2, y3, y4]"
    by blast
  from list8 [OF take8_uuid_hex(1) [of u]] obtain h1 h2 h3 h4 h5 h6 h7 h8
    where hh: "take 8 (uuid_hex u) = [h1, h2, h3, h4, h5, h6, h7, h8]"
    by blast
  from y(2) yy have yd: "is_digit y1" "is_digit y2" "is_digit y3" "is_digit y4" by simp_all
  from take8_uuid_hex(2) [of u] hh
  have hd: "is_hex h1" "is_hex h2" "is_hex h3" "is_hex h4" "is_hex h5" "is_hex h6" "is_hex h7"
    "is_hex h8" by simp_all
  show ?thesis
    by (simp add: matches_convention_def file_key_def strftime_def yy hh yd hd pad2_def
          is_digit_digit_char)
qed

lemma file_key_inj:
  assumes "valid_tm t" and "valid_tm t'" and "file_key t u = file_key t' u'"
  shows "strftime t' = strftime t" and "take 8 (uuid_hex u') = take 8 (uuid_hex u)"
proof -
  define x where "x = take 8 (uuid_hex u) @ ''.mkv''"
  define y where "y = take 8 (uuid_hex u') @ ''.mkv''"
  from assms(3) have e: "strftime t @ (CHR ''-'' # x) = strftime t' @ (CHR ''-'' # y)"
    by (simp add: file_key_def x_def y_def)
  have l: "length (strftime t) = length (strftime t')"
    using assms(1,2) by (simp add: strftime_length)
  from e l have s: "strftime t = strftime t'" and r: "x = y"
    by simp_all
  from s show "strftime t' = strftime t" by simp
  from r show "take 8 (uuid_hex u') = take 8 (uuid_hex u)"
    unfolding x_def y_def by (simp only: append_same_eq)
qed

lemma put_object_key:
  assumes "Ev_put_object bucket k body ct \<in> set (snd (snd (upload_to_s3 env cfg b s)))"
  shows "k = file_key (localtime env) (uuid4 env)"
  using assms
  by (auto simp: upload_to_s3_def upload_try_def Let_def split: option.splits)

section \<open>Stop and upload with frames in the buffer (claims C3 and C6)\<close>

lemma io_unbound: "''io'' \<notin> set module_names"
  by (simp add: module_names_def)

lemma recording_state_frames: "recording_state ''frames'' = Some (PList [1])"
  by (simp add: recording_state_def)

lemma stop_handler_recording_state:
  "stop_handler env cfg recording_state =
     (recording_state(''recording'' \<mapsto> PBool False, ''status'' \<mapsto> PStr ''Processing...''),
      [], Raised (NameError ''io''))"
  by (simp add: stop_handler_def Let_def io_unbound recording_state_frames)

lemma script_run_stop_recording_state:
  "load_secrets (secrets env) = Inr cfg \<Longrightarrow>
   script_run env Click_stop recording_state =
     (recording_state(''recording'' \<mapsto> PBool False, ''status'' \<mapsto> PStr ''Processing...''),
      [Ui Title, Ui Markdown, Ui Webrtc_streamer, Ui Metric, Ui Button_stop],
      Raised (NameError ''io''))"
  by (simp add: script_run_def recording_state_init recording_state_display controls_def
        recording_state_flag stop_handler_recording_state)

text \<open>
  Claim C3 on the code. The session is recording with one frame in the buffer, and the
  bucket would answer the upload with an access-denied ClientError. A click on stop sets
  \<^verbatim>\<open>recording\<close> to false and the status to \<^verbatim>\<open>Processing...\<close>; then line 124
  reads the name \<^verbatim>\<open>io\<close>, which the module never imports, and the NameError leaves
  the script. The encoder and the uploader are never called, no error message of the
  upload is shown, the frame stays in the buffer, there is no rerun, and the status
  remains \<^verbatim>\<open>Processing...\<close>.
\<close>

theorem stop_fails_before_upload:
  "user_step denied_env Click_stop recording_state =
     (recording_state(''recording'' \<mapsto> PBool False, ''status'' \<mapsto> PStr ''Processing...''),
      [Ui Title, Ui Markdown, Ui Webrtc_streamer, Ui Metric, Ui Button_stop],
      Raised (NameError ''io''))"
proof -
  have "load_secrets (secrets denied_env) = Inr demo_cfg"
    by (simp add: denied_env_def demo_load)
  then show ?thesis
    by (simp add: user_step_def script_run_stop_recording_state)
qed

text \<open>
  Claim C6 on the code. Whether the bucket would accept the upload or refuse it, after
  a click on stop with one frame in the buffer the frame is still in the session state:
  the \<^verbatim>\<open>del\<close> of line 140 is never reached.
\<close>

theorem frames_retained_after_stop:
  "frame_buffer (fst (user_step demo_env Click_stop recording_state)) = [1] \<and>
   frame_buffer (fst (user_step denied_env Click_stop recording_state)) = [1] \<and>
   snd (snd (user_step demo_env Click_stop recording_state)) = Raised (NameError ''io'') \<and>
   fst (user_step demo_env Click_stop recording_state) ''recorded_video'' = Some PNone"
proof -
  have "load_secrets (secrets denied_env) = Inr demo_cfg"
    by (simp add: denied_env_def demo_load)
  then show ?thesis
    by (simp add: user_step_def script_run_stop_recording_state demo_load frame_buffer_def
          recording_state_frames)
       (simp add: recording_state_def)
qed

section \<open>Delivered frames (claim C1)\<close>

text \<open>
  The callback as a function of the state it is given: it appends exactly when the flag
  of that state is set.
\<close>

lemma callback_appends:
  assumes "flag_inv s" and "recording_active s"
  shows "fst (video_frame_callback s frame) = Inr frame"
    and "frame_buffer (snd (video_frame_callback s frame)) = frame_buffer s @ [frame]"
  using assms
  by (auto simp: video_frame_callback_def flag_inv_def recording_active_def frame_buffer_def
        Let_def dom_def split: option.splits)

lemma callback_idle:
  "\<not> recording_active s \<Longrightarrow> snd (video_frame_callback s frame) = s"
  by (simp add: callback_state)

text \<open>As the component runs it, the callback finds no \<^verbatim>\<open>recording\<close> key.\<close>

lemma deliver_raises:
  "deliver frame = (Inl (AttributeError ''recording''), media_thread_state)"
  by (simp add: deliver_def video_frame_callback_def media_thread_state_def)

lemma apply_op_deliver: "apply_op s (Deliver frame) = s"
  by (simp split: prod.splits)

lemma frame_buffer_apply_op:
  "frame_buffer (apply_op s op) = frame_buffer s \<or> frame_buffer (apply_op s op) = []"
  using frame_buffer_user_step by (cases op) (auto split: prod.splits)

lemma frame_buffer_foldl:
  "frame_buffer s = [] \<Longrightarrow> frame_buffer (foldl apply_op s ops) = []"
proof (induction ops arbitrary: s)
  case Nil
  then show ?case by simp
next
  case (Cons op ops)
  from frame_buffer_apply_op [of s op] Cons.prems have "frame_buffer (apply_op s op) = []"
    by auto
  then show ?case by (simp add: Cons.IH)
qed

lemma frame_buffer_exec: "frame_buffer (exec ops) = []"
  unfolding exec_def by (rule frame_buffer_foldl) (simp add: frame_buffer_def)

lemma demo_started:
  "exec [User demo_env Click_start] ''recording'' = Some (PBool True)"
  "exec [User demo_env Click_start] ''frames'' = Some (PList [])"
  "exec [User demo_env Click_start] ''status'' = Some (PStr ''Recording'')"
  by (simp_all add: exec_def user_step_def script_run_def load_secrets_def demo_env_def
        demo_secrets_def init_apply display_def controls_def start_handler_def
        reset_button_def Let_def)

lemma exec_snoc_deliver: "exec (ops @ [Deliver frame]) = exec ops"
  by (simp add: exec_def split: prod.splits)

text \<open>
  Claim C1 on the code. The user starts a recording on a playing stream and the
  transport delivers frame 1. The session is recording (flag set, status
  \<^verbatim>\<open>Recording\<close>), yet the callback, on the media thread, raises AttributeError on
  line 44 and the buffer of the session stays empty; run on the session's own state,
  the same callback would have stored the frame. In no history at all does the buffer
  hold a frame.
\<close>

theorem delivered_frame_not_stored:
  "recording_active (exec [User demo_env Click_start, Deliver 1]) \<and>
   exec [User demo_env Click_start, Deliver 1] ''status'' = Some (PStr ''Recording'') \<and>
   deliver (1::nat) = (Inl (AttributeError ''recording''), media_thread_state) \<and>
   exec [User demo_env Click_start, Deliver 1] ''frames'' = Some (PList []) \<and>
   frame_buffer (snd (video_frame_callback (exec [User demo_env Click_start]) 1)) = [1] \<and>
   frame_buffer (exec ops) = []"
proof -
  have e: "exec [User demo_env Click_start, Deliver 1] = exec [User demo_env Click_start]"
    using exec_snoc_deliver [of "[User demo_env Click_start]" 1] by simp
  have a: "recording_active (exec [User demo_env Click_start])"
    by (simp add: recording_active_def demo_started)
  have b: "frame_buffer (exec [User demo_env Click_start]) = []" by (rule frame_buffer_exec)
  from callback_appends(2) [OF flag_inv_exec a, of 1] b
  have c: "frame_buffer (snd (video_frame_callback (exec [User demo_env Click_start]) 1)) = [1]"
    by simp
  from a c show ?thesis
    unfolding e by (simp add: demo_started deliver_raises frame_buffer_exec)
qed

section \<open>Missing configuration halts the run (claim C7)\<close>

lemma load_secrets_missing:
  assumes "sec ''AWS_ACCESS_KEY_ID'' = None \<or> sec ''AWS_SECRET_ACCESS_KEY'' = None \<or>
           sec ''S3_BUCKET'' = None"
  shows "\<exists>k. load_secrets (Some sec) = Inl (KeyError k)"
  using assms by (auto simp: load_secrets_def Let_def split: option.splits)

lemma load_secrets_present:
  assumes "sec ''AWS_ACCESS_KEY_ID'' = Some a" and "sec ''AWS_SECRET_ACCESS_KEY'' = Some b"
    and "sec ''S3_BUCKET'' = Some c"
  shows "load_secrets (Some sec) =
           Inr \<lparr>aws_access_key_id = a, aws_secret_access_key = b,
                aws_region = (case sec ''AWS_REGION'' of None \<Rightarrow> ''us-east-1'' | Some r \<Rightarrow> r),
                s3_bucket = c\<rparr>"
  using assms by (simp add: load_secrets_def)

lemma script_run_missing:
  assumes "load_secrets (secrets env) = Inl (KeyError k)"
  shows "script_run env clk s = (s, [St_error missing_secrets_msg], Stopped)"
  using assms by (simp add: script_run_def)

lemma script_run_no_source:
  assumes "secrets env = None"
  shows "script_run env clk s = (s, [], Raised no_secrets_found)"
  using assms by (simp add: script_run_def load_secrets_def no_secrets_found_def)

text \<open>
  Claim C7. A run of the script whose configuration is incomplete halts on lines 10
  to 17, whatever the click and the session state, in one of two ways. When the
  secrets exist but lack \<^verbatim>\<open>AWS_ACCESS_KEY_ID\<close>, \<^verbatim>\<open>AWS_SECRET_ACCESS_KEY\<close> or
  \<^verbatim>\<open>S3_BUCKET\<close>, the run shows the one error message and stops. When there is no
  secrets source at all, the exception of the first read leaves the script with
  nothing shown. Either way the session state is not touched (nothing is initialised),
  no widget is drawn and no handler runs, and the same holds for the whole user
  interaction. A missing \<^verbatim>\<open>AWS_REGION\<close> is not an error: the region is then
  \<^verbatim>\<open>us-east-1\<close> and the run goes on.
\<close>

theorem missing_secret_stops_run:
  "(secrets env = Some sec \<and>
    (sec ''AWS_ACCESS_KEY_ID'' = None \<or> sec ''AWS_SECRET_ACCESS_KEY'' = None \<or>
     sec ''S3_BUCKET'' = None) \<longrightarrow>
      script_run env clk s = (s, [St_error missing_secrets_msg], Stopped) \<and>
      user_step env clk s = (s, [St_error missing_secrets_msg], Stopped)) \<and>
   (secrets env = None \<longrightarrow>
      script_run env clk s = (s, [], Raised no_secrets_found) \<and>
      user_step env clk s = (s, [], Raised no_secrets_found)) \<and>
   (secrets env = Some sec \<and> sec ''AWS_ACCESS_KEY_ID'' = Some a \<and>
    sec ''AWS_SECRET_ACCESS_KEY'' = Some b \<and> sec ''S3_BUCKET'' = Some c \<and>
    sec ''AWS_REGION'' = None \<longrightarrow>
      load_secrets (secrets env) =
        Inr \<lparr>aws_access_key_id = a, aws_secret_access_key = b, aws_region = ''us-east-1'',
             s3_bucket = c\<rparr> \<and>
      snd (snd (script_run env clk s)) \<noteq> Stopped)"
proof (intro conjI impI)
  assume m: "secrets env = Some sec \<and>
    (sec ''AWS_ACCESS_KEY_ID'' = None \<or> sec ''AWS_SECRET_ACCESS_KEY'' = None \<or>
     sec ''S3_BUCKET'' = None)"
  then have "\<exists>k. load_secrets (secrets env) = Inl (KeyError k)"
    using load_secrets_missing [of sec] by simp
  then obtain k where "load_secrets (secrets env) = Inl (KeyError k)" ..
  then show r: "script_run env clk s = (s, [St_error missing_secrets_msg], Stopped)"
    by (rule script_run_missing)
  then show "user_step env clk s = (s, [St_error missing_secrets_msg], Stopped)"
    by (simp add: user_step_def)
next
  assume n: "secrets env = None"
  then show r: "script_run env clk s = (s, [], Raised no_secrets_found)"
    by (rule script_run_no_source)
  then show "user_step env clk s = (s, [], Raised no_secrets_found)"
    by (simp add: user_step_def)
next
  assume p: "secrets env = Some sec \<and> sec ''AWS_ACCESS_KEY_ID'' = Some a \<and>
    sec ''AWS_SECRET_ACCESS_KEY'' = Some b \<and> sec ''S3_BUCKET'' = Some c \<and>
    sec ''AWS_REGION'' = None"
  then show l: "load_secrets (secrets env) =
        Inr \<lparr>aws_access_key_id = a, aws_secret_access_key = b, aws_region = ''us-east-1'',
             s3_bucket = c\<rparr>"
    by (simp add: load_secrets_present)
  show "snd (snd (script_run env clk s)) \<noteq> Stopped"
    by (simp add: script_run_def l Let_def controls_def reset_button_def stop_handler_def
          split: option.splits prod.splits)
qed

theorem missing_secret_stops_run_witness:
  "secrets (demo_env\<lparr>secrets := Some (demo_secrets(''S3_BUCKET'' := None))\<rparr>) =
     Some (demo_secrets(''S3_BUCKET'' := None)) \<and>
   (demo_secrets(''S3_BUCKET'' := None)) ''S3_BUCKET'' = None \<and>
   script_run (demo_env\<lparr>secrets := Some (demo_secrets(''S3_BUCKET'' := None))\<rparr>) Click_start
       (Map.empty :: nat session_state) =
     (Map.empty, [St_error missing_secrets_msg], Stopped) \<and>
   secrets (demo_env\<lparr>secrets := None\<rparr>) = None \<and>
   script_run (demo_env\<lparr>secrets := None\<rparr>) Click_start (Map.empty :: nat session_state) =
     (Map.empty, [], Raised (FileNotFoundError ''No secrets found.'')) \<and>
   secrets demo_env = Some demo_secrets \<and> demo_secrets ''AWS_REGION'' = None \<and>
   load_secrets (secrets demo_env) = Inr demo_cfg \<and>
   snd (snd (script_run demo_env No_click (Map.empty :: nat session_state))) \<noteq> Stopped"
proof -
  let ?m = "demo_secrets(''S3_BUCKET'' := None)"
  let ?e = "demo_env\<lparr>secrets := Some ?m\<rparr>"
  let ?n = "demo_env\<lparr>secrets := None\<rparr>"
  let ?s = "Map.empty :: nat session_state"
  have m: "secrets ?e = Some ?m" and mb: "?m ''S3_BUCKET'' = None" by simp_all
  have n: "secrets ?n = None" by simp
  have d: "secrets demo_env = Some demo_secrets" by (simp add: demo_env_def)
  have p: "demo_secrets ''AWS_ACCESS_KEY_ID'' = Some ''AKIAEXAMPLE'' \<and>
           demo_secrets ''AWS_SECRET_ACCESS_KEY'' = Some ''secret'' \<and>
           demo_secrets ''S3_BUCKET'' = Some ''clips'' \<and> demo_secrets ''AWS_REGION'' = None"
    by (simp add: demo_secrets_def)
  from missing_secret_stops_run [of ?e ?m Click_start ?s] m mb
  have 1: "script_run ?e Click_start ?s = (Map.empty, [St_error missing_secrets_msg], Stopped)"
    by blast
  from missing_secret_stops_run [of ?n ?m Click_start ?s] n
  have 2: "script_run ?n Click_start ?s =
             (Map.empty, [], Raised (FileNotFoundError ''No secrets found.''))"
    unfolding no_secrets_found_def by blast
  from missing_secret_stops_run [of demo_env demo_secrets No_click ?s
      "''AKIAEXAMPLE''" "''secret''" "''clips''"] d p
  have 3: "load_secrets (secrets demo_env) = Inr demo_cfg"
    and 4: "snd (snd (script_run demo_env No_click ?s)) \<noteq> Stopped"
    unfolding demo_cfg_def by blast+
  from m mb n d p 1 2 3 4 show ?thesis by blast
qed

section \<open>What the flush does at a frame that fails (claim C5, amended)\<close>














section \<open>Keys are told apart by the clock and by the UUID (claim C9)\<close>

lemma digit_char_inj: "digit_char a = digit_char b \<Longrightarrow> a mod 10 = b mod 10"
proof -
  assume e: "digit_char a = digit_char b"
  have d: "distinct ''0123456789''" by simp
  have "a mod 10 < length ''0123456789''" "b mod 10 < length ''0123456789''" by simp_all
  with d e show ?thesis
    unfolding digit_char_def by (simp only: nth_eq_iff_index_eq)
qed

lemma hex_char_inj: "hex_char a = hex_char b \<Longrightarrow> a mod 16 = b mod 16"
proof -
  assume e: "hex_char a = hex_char b"
  have d: "distinct ''0123456789abcdef''" by simp
  have "a mod 16 < length ''0123456789abcdef''" "b mod 16 < length ''0123456789abcdef''"
    by simp_all
  with d e show ?thesis
    unfolding hex_char_def by (simp only: nth_eq_iff_index_eq)
qed

lemma div_mod_10_eq: "(a::nat) div 10 = b div 10 \<Longrightarrow> a mod 10 = b mod 10 \<Longrightarrow> a = b"
  by (metis div_mult_mod_eq)

lemma pad2_inj:
  assumes "pad2 a = pad2 b" and "a < 100" and "b < 100"
  shows "a = b"
proof -
  from assms(1) have h: "digit_char (a div 10) = digit_char (b div 10)"
    and l: "digit_char a = digit_char b"
    by (simp_all add: pad2_def)
  from assms(2,3) have s: "a div 10 < 10" "b div 10 < 10" by simp_all
  from h have "a div 10 mod 10 = b div 10 mod 10" by (rule digit_char_inj)
  with s have "a div 10 = b div 10" by simp
  moreover from l have "a mod 10 = b mod 10" by (rule digit_char_inj)
  ultimately show ?thesis by (rule div_mod_10_eq)
qed

lemma decimal_four:
  assumes "1000 \<le> n" and "n \<le> 9999"
  shows "decimal n =
      [digit_char (n div 10 div 10 div 10), digit_char (n div 10 div 10),
       digit_char (n div 10), digit_char n]"
  using assms
  by (simp add: decimal_large [of n] decimal_large [of "n div 10"]
        decimal_large [of "n div 10 div 10"] decimal_small [of "n div 10 div 10 div 10"])

lemma decimal_inj:
  assumes "decimal n = decimal m" and "1000 \<le> n" and "n \<le> 9999" and "1000 \<le> m"
    and "m \<le> 9999"
  shows "n = m"
proof -
  from assms have d3: "digit_char (n div 10 div 10 div 10) = digit_char (m div 10 div 10 div 10)"
    and d2: "digit_char (n div 10 div 10) = digit_char (m div 10 div 10)"
    and d1: "digit_char (n div 10) = digit_char (m div 10)"
    and d0: "digit_char n = digit_char m"
    by (simp_all add: decimal_four)
  from assms(3,5) have s: "n div 10 div 10 div 10 < 10" "m div 10 div 10 div 10 < 10"
    by simp_all
  from d3 have "n div 10 div 10 div 10 mod 10 = m div 10 div 10 div 10 mod 10"
    by (rule digit_char_inj)
  with s have e3: "n div 10 div 10 div 10 = m div 10 div 10 div 10" by simp
  from d2 have "n div 10 div 10 mod 10 = m div 10 div 10 mod 10" by (rule digit_char_inj)
  with e3 have e2: "n div 10 div 10 = m div 10 div 10" by (rule div_mod_10_eq)
  from d1 have "n div 10 mod 10 = m div 10 mod 10" by (rule digit_char_inj)
  with e2 have e1: "n div 10 = m div 10" by (rule div_mod_10_eq)
  from d0 have "n mod 10 = m mod 10" by (rule digit_char_inj)
  with e1 show ?thesis by (rule div_mod_10_eq)
qed

lemma strftime_inj:
  assumes "strftime t = strftime t'" and "valid_tm t" and "valid_tm t'"
  shows "t = t'"
proof -
  from assms(2,3) have y: "length (decimal (tm_year t)) = 4" "length (decimal (tm_year t')) = 4"
    by (simp_all add: valid_tm_def decimal_four_digits)
  from assms(1) y have "decimal (tm_year t) = decimal (tm_year t')"
    and r: "pad2 (tm_mon t) @ pad2 (tm_mday t) @ ''-'' @ pad2 (tm_hour t) @ pad2 (tm_min t) @
          pad2 (tm_sec t) =
        pad2 (tm_mon t') @ pad2 (tm_mday t') @ ''-'' @ pad2 (tm_hour t') @ pad2 (tm_min t') @
          pad2 (tm_sec t')"
    by (simp_all add: strftime_def)
  with assms(2,3) have 1: "tm_year t = tm_year t'"
    by (auto simp: valid_tm_def intro: decimal_inj)
  from r have p: "pad2 (tm_mon t) = pad2 (tm_mon t')" "pad2 (tm_mday t) = pad2 (tm_mday t')"
    "pad2 (tm_hour t) = pad2 (tm_hour t')" "pad2 (tm_min t) = pad2 (tm_min t')"
    "pad2 (tm_sec t) = pad2 (tm_sec t')"
    by (simp_all add: pad2_shape)
  from assms(2,3) have b: "tm_mon t < 100" "tm_mon t' < 100" "tm_mday t < 100" "tm_mday t' < 100"
    "tm_hour t < 100" "tm_hour t' < 100" "tm_min t < 100" "tm_min t' < 100"
    "tm_sec t < 100" "tm_sec t' < 100"
    by (simp_all add: valid_tm_def)
  from p b have 2: "tm_mon t = tm_mon t'" "tm_mday t = tm_mday t'" "tm_hour t = tm_hour t'"
    "tm_min t = tm_min t'" "tm_sec t = tm_sec t'"
    by (blast intro: pad2_inj)+
  from 1 2 show ?thesis by simp
qed

lemma nibble_step:
  assumes "(n::nat) div (16 * k) = m div (16 * k)" and "n div k mod 16 = m div k mod 16"
  shows "n div k = m div k"
proof -
  have "n div k div 16 = m div k div 16"
    using assms(1) by (simp add: div_mult2_eq mult.commute)
  with assms(2) show ?thesis by (metis div_mult_mod_eq)
qed

lemma nibbles_eq:
  assumes "(n::nat) div 16 ^ (a + j) = m div 16 ^ (a + j)"
    and "\<forall>i. a \<le> i \<and> i < a + j \<longrightarrow> n div 16 ^ i mod 16 = m div 16 ^ i mod 16"
  shows "n div 16 ^ a = m div 16 ^ a"
  using assms
proof (induction j)
  case 0
  then show ?case by simp
next
  case (Suc j)
  from Suc.prems(1) have "n div (16 * 16 ^ (a + j)) = m div (16 * 16 ^ (a + j))" by simp
  moreover from Suc.prems(2) have "n div 16 ^ (a + j) mod 16 = m div 16 ^ (a + j) mod 16"
    by simp
  ultimately have "n div 16 ^ (a + j) = m div 16 ^ (a + j)" by (rule nibble_step)
  with Suc.prems(2) show ?case by (simp add: Suc.IH)
qed

lemma div_pow_mono_eq:
  assumes "(n::nat) div 16 ^ a = m div 16 ^ a" and "a \<le> i"
  shows "n div 16 ^ i = m div 16 ^ i"
proof -
  from assms(2) have "(16::nat) ^ i = 16 ^ a * 16 ^ (i - a)"
    by (simp add: power_add [symmetric])
  then have "n div 16 ^ i = n div 16 ^ a div 16 ^ (i - a)"
    and "m div 16 ^ i = m div 16 ^ a div 16 ^ (i - a)"
    by (simp_all add: div_mult2_eq)
  with assms(1) show ?thesis by simp
qed

lemma take8_uuid_hex_map:
  "take 8 (uuid_hex u) = map (\<lambda>i. hex_char (unat u div 16 ^ i)) (rev [24..<32])"
proof -
  have "take 8 (rev [0..<32::nat]) = rev (drop 24 [0..<32])"
    by (simp add: take_rev)
  also have "drop 24 [0..<32::nat] = [24..<32]" by simp
  finally show ?thesis by (simp add: uuid_hex_def take_map)
qed

lemma suffix_eq_nibbles:
  "take 8 (uuid_hex u) = take 8 (uuid_hex u') \<longleftrightarrow>
     (\<forall>i. 24 \<le> i \<and> i < 32 \<longrightarrow>
        hex_char (unat u div 16 ^ i) = hex_char (unat u' div 16 ^ i))"
  unfolding take8_uuid_hex_map map_eq_conv set_rev set_upt by auto

lemma suffix_eq_iff:
  "take 8 (uuid_hex u) = take 8 (uuid_hex u') \<longleftrightarrow>
     unat u div 2 ^ 96 = unat u' div 2 ^ 96"
proof
  assume "take 8 (uuid_hex u) = take 8 (uuid_hex u')"
  then have "\<forall>i. 24 \<le> i \<and> i < 32 \<longrightarrow>
      hex_char (unat u div 16 ^ i) = hex_char (unat u' div 16 ^ i)"
    by (simp only: suffix_eq_nibbles)
  then have n: "\<forall>i. 24 \<le> i \<and> i < 24 + 8 \<longrightarrow>
      unat u div 16 ^ i mod 16 = unat u' div 16 ^ i mod 16"
    by (auto intro: hex_char_inj)
  have "unat u < 2 ^ 128" "unat u' < 2 ^ 128"
    using unsigned_less [of u] unsigned_less [of u'] by simp_all
  then have z: "unat u div 16 ^ (24 + 8) = unat u' div 16 ^ (24 + 8)" by simp
  have "unat u div 16 ^ 24 = unat u' div 16 ^ 24" using z n by (rule nibbles_eq)
  then show "unat u div 2 ^ 96 = unat u' div 2 ^ 96" by simp
next
  assume "unat u div 2 ^ 96 = unat u' div 2 ^ 96"
  then have "unat u div 16 ^ 24 = unat u' div 16 ^ 24" by simp
  then have "\<forall>i. 24 \<le> i \<and> i < 32 \<longrightarrow>
      hex_char (unat u div 16 ^ i) = hex_char (unat u' div 16 ^ i)"
    using div_pow_mono_eq [of "unat u" 24 "unat u'"] by auto
  then show "take 8 (uuid_hex u) = take 8 (uuid_hex u')"
    by (simp only: suffix_eq_nibbles)
qed

lemma file_key_eq_iff:
  assumes "valid_tm t" and "valid_tm t'"
  shows "file_key t' u' = file_key t u \<longleftrightarrow>
           t' = t \<and> unat u' div 2 ^ 96 = unat u div 2 ^ 96"
proof
  assume e: "file_key t' u' = file_key t u"
  from file_key_inj [OF assms(2,1) e]
  have "strftime t = strftime t'" and "take 8 (uuid_hex u) = take 8 (uuid_hex u')" .
  with assms show "t' = t \<and> unat u' div 2 ^ 96 = unat u div 2 ^ 96"
    by (auto simp: suffix_eq_iff dest: strftime_inj)
next
  assume "t' = t \<and> unat u' div 2 ^ 96 = unat u div 2 ^ 96"
  then have "t' = t" and "take 8 (uuid_hex u') = take 8 (uuid_hex u)"
    by (simp_all add: suffix_eq_iff)
  then show "file_key t' u' = file_key t u" by (simp add: file_key_def)
qed

text \<open>
  Claim C9. For a local time within the ranges of a \<^verbatim>\<open>struct_time\<close> and a year of
  four digits, every \<^verbatim>\<open>put_object\<close> call of \<^verbatim>\<open>upload_to_s3\<close> carries the key
  \<^verbatim>\<open>recordings/webcam-\<close>, eight digits, a dash, six digits, a dash, eight
  hexadecimal digits, and \<^verbatim>\<open>.mkv\<close>. The key is made from the clock and the UUID and
  from nothing else, and it tells them apart: the key of another upload, at a local
  time \<open>t'\<close> with a UUID \<open>u'\<close>, is the same key exactly when \<open>t'\<close> is the same second
  and \<open>u'\<close> has the same first 32 bits. So concurrent sessions that upload in different
  seconds never collide, and in one second the keys are as many as the values of those
  32 bits. (That \<^verbatim>\<open>uuid4\<close> draws these bits at random is the library's part.)
\<close>

theorem object_key_matches_convention:
  assumes "valid_tm (localtime env)"
  shows "(\<forall>bucket k body ct.
            Ev_put_object bucket k body ct \<in> set (snd (snd (upload_to_s3 env cfg b s))) \<longrightarrow>
              k = file_key (localtime env) (uuid4 env) \<and> matches_convention ''mkv'' k) \<and>
         (\<forall>t' u'. valid_tm t' \<longrightarrow>
            (file_key t' u' = file_key (localtime env) (uuid4 env) \<longleftrightarrow>
               t' = localtime env \<and> unat u' div 2 ^ 96 = unat (uuid4 env) div 2 ^ 96))"
proof (intro conjI allI impI)
  fix bucket k body ct
  assume "Ev_put_object bucket k body ct \<in> set (snd (snd (upload_to_s3 env cfg b s)))"
  then show k: "k = file_key (localtime env) (uuid4 env)" by (rule put_object_key)
  show "matches_convention ''mkv'' k" unfolding k using assms by (rule file_key_matches)
next
  fix t' u'
  assume "valid_tm t'"
  with assms show "file_key t' u' = file_key (localtime env) (uuid4 env) \<longleftrightarrow>
      t' = localtime env \<and> unat u' div 2 ^ 96 = unat (uuid4 env) div 2 ^ 96"
    by (rule file_key_eq_iff)
qed

theorem object_key_matches_convention_witness:
  "valid_tm (localtime demo_env) \<and>
   Ev_put_object ''clips'' ''recordings/webcam-20261104-094207-01234567.mkv'' [1, 2, 3]
       ''video/x-matroska''
     \<in> set (snd (snd (upload_to_s3 demo_env demo_cfg [1, 2, 3] recording_state))) \<and>
   matches_convention ''mkv'' ''recordings/webcam-20261104-094207-01234567.mkv'' \<and>
   valid_tm demo_tm \<and>
   file_key demo_tm 0x1123456789abcdef0123456789abcdef \<noteq>
     file_key (localtime demo_env) (uuid4 demo_env) \<and>
   valid_tm (demo_tm\<lparr>tm_sec := 8\<rparr>) \<and>
   file_key (demo_tm\<lparr>tm_sec := 8\<rparr>) (uuid4 demo_env) \<noteq>
     file_key (localtime demo_env) (uuid4 demo_env)"
proof -
  have p: "Ev_put_object ''clips'' ''recordings/webcam-20261104-094207-01234567.mkv'' [1, 2, 3]
       ''video/x-matroska''
     \<in> set (snd (snd (upload_to_s3 demo_env demo_cfg [1, 2, 3] recording_state)))"
    by (simp add: upload_to_s3_def upload_try_def Let_def demo_key demo_env_calls
          demo_cfg_def)
  note t = object_key_matches_convention [OF demo_tm_valid, of demo_cfg "[1, 2, 3]"
      recording_state]
  from t p have m: "matches_convention ''mkv'' ''recordings/webcam-20261104-094207-01234567.mkv''"
    by blast
  have v: "valid_tm demo_tm" and w: "valid_tm (demo_tm\<lparr>tm_sec := 8\<rparr>)"
    by (simp_all add: valid_tm_def demo_tm_def)
  have u: "unat (0x1123456789abcdef0123456789abcdef :: 128 word) div 2 ^ 96 \<noteq>
           unat (uuid4 demo_env) div 2 ^ 96"
    by (simp add: demo_env_def)
  have l: "demo_tm\<lparr>tm_sec := 8\<rparr> \<noteq> localtime demo_env"
    by (simp add: demo_env_def demo_tm_def)
  from t v u have 1: "file_key demo_tm 0x1123456789abcdef0123456789abcdef \<noteq>
     file_key (localtime demo_env) (uuid4 demo_env)"
    by blast
  from t w l have 2: "file_key (demo_tm\<lparr>tm_sec := 8\<rparr>) (uuid4 demo_env) \<noteq>
     file_key (localtime demo_env) (uuid4 demo_env)"
    by blast
  from demo_tm_valid p m v w 1 2 show ?thesis by blast
qed

section \<open>A failed upload and the stop handler (claim C10)\<close>

lemma denied_env_calls:
  "s3_client denied_env = None"
  "put_object denied_env bucket k body ct = Some (ClientError ''AccessDenied'')"
  "localtime denied_env = localtime demo_env" "uuid4 denied_env = uuid4 demo_env"
  by (simp_all add: denied_env_def demo_env_def)

text \<open>Every exception of the \<^verbatim>\<open>try\<close> block is taken by one of the three clauses.\<close>

lemma upload_failure_reported:
  assumes "upload_try env cfg b s = (Inl e, evs)"
  shows "upload_to_s3 env cfg b s = (None, s, evs @ [St_error (upload_except cfg e)])"
  using assms by (simp add: upload_to_s3_def)

text \<open>
  Claim C10 on the code. The session is recording with one frame in the buffer and the
  bucket refuses the upload. Called with a payload, \<^verbatim>\<open>upload_to_s3\<close> does what the
  claim says: the ClientError of \<^verbatim>\<open>put_object\<close> is caught, shown as an error message,
  and the function returns with the session state as it was. But the stop handler does
  not run to completion: it raises the NameError of line 124 before any encoder call,
  so \<^verbatim>\<open>upload_to_s3\<close> is not called at all, the buffer is not released and there is
  no rerun.
\<close>

theorem stop_handler_incomplete_with_failing_upload:
  "upload_to_s3 denied_env demo_cfg [1, 2, 3] recording_state =
     (None, recording_state,
      [Ev_s3_client, St_progress 0,
       Ev_put_object ''clips'' ''recordings/webcam-20261104-094207-01234567.mkv'' [1, 2, 3]
         ''video/x-matroska'',
       St_error (cross_mark @
         '' **S3 Error**: AccessDenied. Verify bucket `clips` exists + IAM permissions.'')]) \<and>
   stop_handler denied_env demo_cfg recording_state =
     (recording_state(''recording'' \<mapsto> PBool False, ''status'' \<mapsto> PStr ''Processing...''),
      [], Raised (NameError ''io'')) \<and>
   fst (stop_handler denied_env demo_cfg recording_state) ''frames'' = Some (PList [1])"
proof -
  have 1: "upload_to_s3 denied_env demo_cfg [1, 2, 3] recording_state =
     (None, recording_state,
      [Ev_s3_client, St_progress 0,
       Ev_put_object ''clips'' ''recordings/webcam-20261104-094207-01234567.mkv'' [1, 2, 3]
         ''video/x-matroska'',
       St_error (cross_mark @
         '' **S3 Error**: AccessDenied. Verify bucket `clips` exists + IAM permissions.'')])"
    by (simp add: upload_to_s3_def upload_try_def Let_def demo_key denied_env_calls demo_cfg_def)
  have 2: "stop_handler denied_env demo_cfg recording_state =
     (recording_state(''recording'' \<mapsto> PBool False, ''status'' \<mapsto> PStr ''Processing...''),
      [], Raised (NameError ''io''))"
    by (rule stop_handler_recording_state)
  have 3: "fst (stop_handler denied_env demo_cfg recording_state) ''frames'' = Some (PList [1])"
    unfolding 2 by (simp add: recording_state_frames)
  from 1 2 3 show ?thesis by blast
qed

end
